theory Spec2Isabelle
  imports Complex_Main "HOL-Library.Log_Nat"
begin

section \<open>JavaScript values\<close>

text \<open>
  The program is TypeScript whose interesting values are typed \<open>any\<close>. Values that are
  plain data (what JSON holds, undefined, error objects) are modelled by \<open>jsval\<close>.
  Numbers are IEEE doubles in the source; \<open>Finite q\<close> is the double that denotes the
  rational \<open>q\<close>, and the arithmetic the program does on them rounds (\<open>to_double\<close>
  below). \<open>JIso t\<close> stands for the string that \<open>new Date(t).toISOString()\<close> yields
  for the time value \<open>t\<close> (milliseconds since the epoch); \<open>JError n m\<close> is an error
  object with name \<open>n\<close> and message \<open>m\<close>.
\<close>

datatype jsnum = Finite rat | NaN | PosInfinity | NegInfinity

datatype jsval =
    Undefined
  | Null
  | JBool bool
  | JNum jsnum
  | JStr string
  | JIso int
  | JError string string
  | JArr "jsval list"
  | JObj "(string \<times> jsval) list"

text \<open>ToBoolean: the falsy values are undefined, null, false, 0, NaN and the empty string.\<close>

fun truthy :: "jsval \<Rightarrow> bool" where
  "truthy Undefined = False"
| "truthy Null = False"
| "truthy (JBool b) = b"
| "truthy (JNum n) = (n \<noteq> Finite 0 \<and> n \<noteq> NaN)"
| "truthy (JStr s) = (s \<noteq> [])"
| "truthy (JIso t) = True"
| "truthy (JError n m) = True"
| "truthy (JArr xs) = True"
| "truthy (JObj kvs) = True"

text \<open>The double and the single quote, for the messages.\<close>

definition dq :: char where
  "dq = CHR 0x22"

text \<open>
  Reading a property \<open>v.p\<close>. On undefined and null the read throws a TypeError; an
  object yields the stored value or undefined; of an error object the name and the
  message can be read. The properties that the prototypes of strings, arrays and objects
  add (\<open>length\<close>, \<open>toString\<close>, ...) are not modelled: the program reads none of them.
\<close>

definition sq :: char where
  "sq = CHR 0x27"

definition cannot_read :: "string \<Rightarrow> string \<Rightarrow> jsval" where
  "cannot_read what p =
     JError ''TypeError''
       (''Cannot read properties of '' @ what @ '' (reading '' @ [sq] @ p @ [sq] @ '')'')"

fun prop_get :: "jsval \<Rightarrow> string \<Rightarrow> jsval + jsval" where
  "prop_get Undefined p = Inl (cannot_read ''undefined'' p)"
| "prop_get Null p = Inl (cannot_read ''null'' p)"
| "prop_get (JObj kvs) p = (case map_of kvs p of None \<Rightarrow> Inr Undefined | Some v \<Rightarrow> Inr v)"
| "prop_get (JError n m) p =
     (if p = ''message'' then Inr (JStr m) else if p = ''name'' then Inr (JStr n)
      else Inr Undefined)"
| "prop_get v p = Inr Undefined"

text \<open>
  ToString, as a template literal applies it to a substitution: \<open>Some e\<close> when it
  throws \<open>e\<close>. A primitive converts. An object is converted by its \<open>toString\<close>:
  the inherited one gives \<open>[object Object]\<close>, but an own property \<open>toString\<close>
  hides it, and as plain data it is not callable; \<open>valueOf\<close>, own or inherited,
  yields no primitive either, so the conversion throws a TypeError. An array joins the
  conversions of its elements, skipping undefined and null, and throws when one does.
\<close>

definition cannot_convert :: jsval where
  "cannot_convert = JError ''TypeError'' ''Cannot convert object to primitive value''"

fun first_thrown :: "jsval option list \<Rightarrow> jsval option" where
  "first_thrown [] = None"
| "first_thrown (None # rs) = first_thrown rs"
| "first_thrown (Some e # rs) = Some e"

fun to_string_throws :: "jsval \<Rightarrow> jsval option" where
  "to_string_throws (JObj kvs) =
     (if map_of kvs ''toString'' \<noteq> None then Some cannot_convert else None)"
| "to_string_throws (JArr xs) = first_thrown (map to_string_throws xs)"
| "to_string_throws v = None"

text \<open>
  A value typed \<open>any\<close> that the program only logs and passes on: plain data, or some
  other value (a function, a class instance, an object with an inspection hook).
\<close>

datatype anyval = Plain jsval | Exotic

section \<open>The console\<close>

text \<open>
  Every call of a \<open>console\<close> method is recorded, in order. A template literal whose
  substitutions are typed \<open>any\<close> is kept as its pieces: the text of a substitution that
  converts is kept as the value (whether it converts is \<open>to_string_throws\<close>). An
  argument that is not plain data is recorded as \<open>Opaque\<close>.
\<close>

datatype piece = Lit string | Interp jsval

datatype log_arg = Text "piece list" | Value jsval | Opaque

definition log_value :: "anyval \<Rightarrow> log_arg" where
  "log_value a = (case a of Plain v \<Rightarrow> Value v | Exotic \<Rightarrow> Opaque)"

datatype console_call =
    Console_log "log_arg list"
  | Console_warn "log_arg list"
  | Console_error "log_arg list"
  | Console_group "log_arg list"
  | Console_groupEnd
  | Console_table jsval

section \<open>The browser side: the tool registry (browser-tools-mcp.ts)\<close>

text \<open>
  The world a tool runs in: the console, \<open>process.env.NODE_ENV\<close>, and the host objects
  \<open>window\<close>, \<open>navigator\<close> and \<open>document\<close>. A host object that is not declared is
  \<open>None\<close>, and naming it throws a ReferenceError. \<open>window\<close> is given by what reading
  each of its properties does (a value, or a thrown value, as a getter may throw);
  \<open>navigator\<close> by the property names it has (for the \<open>in\<close> operator); \<open>document\<close> by
  \<open>createElement\<close>, which throws or yields an element, itself given by what its
  \<open>getContext\<close> does.
\<close>

record world =
  console :: "console_call list"
  node_env :: "string option"
  window :: "(string \<Rightarrow> jsval + jsval) option"
  navigator :: "(string \<Rightarrow> bool) option"
  document :: "(string \<Rightarrow> jsval + (string \<Rightarrow> jsval + jsval)) option"

definition console_add :: "console_call \<Rightarrow> world \<Rightarrow> world" where
  "console_add c w = w\<lparr>console := console w @ [c]\<rparr>"

text \<open>
  An argument or result of a tool is a data value or a function. Functions are first
  order: they take data values, run in the world, and return or throw a data value.
  In a result, \<open>Inl\<close> is the thrown value.
\<close>

datatype arg = Val jsval | Fn "jsval list \<Rightarrow> world \<Rightarrow> (jsval + jsval) \<times> world"

record BrowserTool =
  name :: string
  description :: string
  execute :: "arg list \<Rightarrow> world \<Rightarrow> (jsval + arg) \<times> world"

text \<open>
  \<open>tools: Map<string, BrowserTool>\<close>. A JavaScript Map keeps insertion order, and
  \<open>set\<close> on an existing key replaces the value in place.
\<close>

type_synonym tools_map = "(string \<times> BrowserTool) list"

fun map_set :: "string \<Rightarrow> BrowserTool \<Rightarrow> tools_map \<Rightarrow> tools_map" where
  "map_set k v [] = [(k, v)]"
| "map_set k v ((k', v') # m) = (if k' = k then (k, v) # m else (k', v') # map_set k v m)"

definition map_has :: "tools_map \<Rightarrow> string \<Rightarrow> bool" where
  "map_has m k = (map_of m k \<noteq> None)"

record BrowserToolsMCP =
  tools :: tools_map

definition registered_msg :: "string \<Rightarrow> string" where
  "registered_msg n = ''Ferramenta '' @ [dq] @ n @ [dq] @ '' registrada com sucesso.''"

definition replacing_msg :: "string \<Rightarrow> string" where
  "replacing_msg n =
     ''Ferramenta '' @ [dq] @ n @ [dq] @ '' j'' @ [CHR 0xE1] @ '' est'' @ [CHR 0xE1]
       @ '' registrada. Substituindo...''"

definition not_found_msg :: "string \<Rightarrow> string" where
  "not_found_msg n =
     ''Ferramenta '' @ [dq] @ n @ [dq] @ '' n'' @ [CHR 0xE3] @ ''o encontrada.''"

definition execute_error_msg :: "string \<Rightarrow> string" where
  "execute_error_msg n = ''Erro ao executar a ferramenta '' @ [dq] @ n @ [dq] @ '':''"

text \<open>\<open>registerTool\<close>: warn when the name is taken, store the tool, log. It returns nothing.\<close>

definition registerTool ::
  "BrowserTool \<Rightarrow> BrowserToolsMCP \<times> world \<Rightarrow> BrowserToolsMCP \<times> world" where
  "registerTool tool st =
     (case st of (this, w) \<Rightarrow>
        let w1 = (if map_has (tools this) (name tool)
                  then console_add (Console_warn [Text [Lit (replacing_msg (name tool))]]) w
                  else w);
            this' = this\<lparr>tools := map_set (name tool) tool (tools this)\<rparr>
        in (this', console_add (Console_log [Text [Lit (registered_msg (name tool))]]) w1))"

text \<open>
  \<open>executeTool\<close>: look the name up; throw when it is absent; otherwise run the tool,
  and when it throws, log the thrown value and throw it again. The method reads
  \<open>this.tools\<close> and never assigns it; the registry is returned to make that visible.
\<close>

definition executeTool ::
  "string \<Rightarrow> arg list \<Rightarrow> BrowserToolsMCP \<times> world \<Rightarrow> (jsval + arg) \<times> BrowserToolsMCP \<times> world"
  where
  "executeTool n args st =
     (case st of (this, w) \<Rightarrow>
        (case map_of (tools this) n of
           None \<Rightarrow> (Inl (JError ''Error'' (not_found_msg n)), this, w)
         | Some tool \<Rightarrow>
             (case execute tool args w of
                (Inr r, w') \<Rightarrow> (Inr r, this, w')
              | (Inl e, w') \<Rightarrow>
                  (Inl e, this,
                   console_add (Console_error [Text [Lit (execute_error_msg n)], Value e]) w'))))"

definition listTools :: "BrowserToolsMCP \<Rightarrow> (string \<times> string) list" where
  "listTools this = map (\<lambda>tool. (name tool, description tool)) (map snd (tools this))"

subsection \<open>The capability probe (the default tool checkBrowserCompatibility)\<close>

definition reference_error :: "string \<Rightarrow> jsval" where
  "reference_error x = JError ''ReferenceError'' (x @ '' is not defined'')"

text \<open>\<open>window.p\<close>: a ReferenceError when \<open>window\<close> is not declared, else the read of \<open>p\<close>.\<close>

definition window_get :: "world \<Rightarrow> string \<Rightarrow> jsval + jsval" where
  "window_get w p =
     (case window w of None \<Rightarrow> Inl (reference_error ''window'') | Some g \<Rightarrow> g p)"

text \<open>\<open>'p' in navigator\<close>.\<close>

definition in_navigator :: "string \<Rightarrow> world \<Rightarrow> jsval + bool" where
  "in_navigator p w =
     (case navigator w of None \<Rightarrow> Inl (reference_error ''navigator'')
      | Some has \<Rightarrow> Inr (has p))"

text \<open>
  The body of the \<open>try\<close> of the webGL probe: create a canvas, then
  \<open>!!(window.WebGLRenderingContext && (canvas.getContext('webgl') ||
  canvas.getContext('experimental-webgl')))\<close>, with the short circuits of \<open>&&\<close> and
  \<open>||\<close>.
\<close>

definition webGL_try :: "world \<Rightarrow> jsval + bool" where
  "webGL_try w =
     (case document w of
        None \<Rightarrow> Inl (reference_error ''document'')
      | Some createElement \<Rightarrow>
          (case createElement ''canvas'' of
             Inl e \<Rightarrow> Inl e
           | Inr getContext \<Rightarrow>
               (case window_get w ''WebGLRenderingContext'' of
                  Inl e \<Rightarrow> Inl e
                | Inr ctor \<Rightarrow>
                    if \<not> truthy ctor then Inr False
                    else (case getContext ''webgl'' of
                            Inl e \<Rightarrow> Inl e
                          | Inr c \<Rightarrow>
                              if truthy c then Inr True
                              else (case getContext ''experimental-webgl'' of
                                      Inl e \<Rightarrow> Inl e
                                    | Inr c' \<Rightarrow> Inr (truthy c'))))))"

text \<open>The immediately invoked function: \<open>try { ... } catch (e) { return false; }\<close>.\<close>

definition webGL_probe :: "world \<Rightarrow> bool" where
  "webGL_probe w = (case webGL_try w of Inl e \<Rightarrow> False | Inr b \<Rightarrow> b)"

text \<open>
  \<open>!!(window.RTCPeerConnection || window.webkitRTCPeerConnection ||
  window.mozRTCPeerConnection)\<close>: a later property is read only when the earlier ones
  are falsy.
\<close>

definition webRTC_probe :: "world \<Rightarrow> jsval + bool" where
  "webRTC_probe w =
     (case window_get w ''RTCPeerConnection'' of
        Inl e \<Rightarrow> Inl e
      | Inr a \<Rightarrow>
          if truthy a then Inr True
          else (case window_get w ''webkitRTCPeerConnection'' of
                  Inl e \<Rightarrow> Inl e
                | Inr b \<Rightarrow>
                    if truthy b then Inr True
                    else (case window_get w ''mozRTCPeerConnection'' of
                            Inl e \<Rightarrow> Inl e
                          | Inr c \<Rightarrow> Inr (truthy c))))"

text \<open>
  The executable of the tool. The six properties of the object literal are evaluated in
  the order they are written; the first one that throws ends the call. Then the object is
  shown with \<open>console.table\<close> and returned.
\<close>

definition checkBrowserCompatibility_execute ::
  "arg list \<Rightarrow> world \<Rightarrow> (jsval + arg) \<times> world" where
  "checkBrowserCompatibility_execute args w =
     (case window_get w ''localStorage'' of
        Inl e \<Rightarrow> (Inl e, w)
      | Inr ls \<Rightarrow>
     (case window_get w ''sessionStorage'' of
        Inl e \<Rightarrow> (Inl e, w)
      | Inr ss \<Rightarrow>
     (case window_get w ''WebSocket'' of
        Inl e \<Rightarrow> (Inl e, w)
      | Inr ws \<Rightarrow>
     (case in_navigator ''serviceWorker'' w of
        Inl e \<Rightarrow> (Inl e, w)
      | Inr sw \<Rightarrow>
     (let gl = webGL_probe w in
     (case webRTC_probe w of
        Inl e \<Rightarrow> (Inl e, w)
      | Inr rtc \<Rightarrow>
          let features = JObj
                [(''localStorage'', JBool (truthy ls)),
                 (''sessionStorage'', JBool (truthy ss)),
                 (''webSockets'', JBool (truthy ws)),
                 (''serviceWorkers'', JBool sw),
                 (''webGL'', JBool gl),
                 (''webRTC'', JBool rtc)]
          in (Inr (Val features), console_add (Console_table features) w)))))))"

definition checkBrowserCompatibility_tool :: BrowserTool where
  "checkBrowserCompatibility_tool =
     \<lparr>name = ''checkBrowserCompatibility'',
      description = ''Verifica a compatibilidade do navegador com recursos necess''
                      @ [CHR 0xE1] @ ''rios'',
      execute = checkBrowserCompatibility_execute\<rparr>"

text \<open>The \<open>window\<close> properties that the probe reads outside any \<open>try\<close>.\<close>

definition unguarded_reads :: "string list" where
  "unguarded_reads =
     [''localStorage'', ''sessionStorage'', ''WebSocket'', ''RTCPeerConnection'',
      ''webkitRTCPeerConnection'', ''mozRTCPeerConnection'']"

definition capability_names :: "string list" where
  "capability_names =
     [''localStorage'', ''sessionStorage'', ''webSockets'', ''serviceWorkers'', ''webGL'',
      ''webRTC'']"

fun is_JBool :: "jsval \<Rightarrow> bool" where
  "is_JBool (JBool b) = True"
| "is_JBool v = False"

subsection \<open>The React hook (integrations/react-hooks.ts)\<close>

text \<open>
  \<open>useBrowserTools\<close> returns closures over the shared registry \<open>browserTools\<close>; the
  registry is the state they are given here. \<open>label\<close> is an optional string, and
  \<open>if (label)\<close> holds for a non-empty one.
\<close>

definition label_truthy :: "string option \<Rightarrow> bool" where
  "label_truthy label = (case label of None \<Rightarrow> False | Some l \<Rightarrow> l \<noteq> [])"

definition development :: "world \<Rightarrow> bool" where
  "development w = (node_env w = Some ''development'')"

definition group_label :: "string option \<Rightarrow> string" where
  "group_label label =
     ''Estado do Componente: '' @ (case label of None \<Rightarrow> [] | Some l \<Rightarrow> l)"

definition useBrowserTools_debugState ::
  "arg \<Rightarrow> string option \<Rightarrow> BrowserToolsMCP \<times> world \<Rightarrow> (jsval + arg) \<times> BrowserToolsMCP \<times> world"
  where
  "useBrowserTools_debugState state label st =
     (case st of (browserTools, w) \<Rightarrow>
        if development w then
          (let w1 = (if label_truthy label
                     then console_add (Console_group [Text [Lit (group_label label)]]) w
                     else w)
           in (case executeTool ''debugState'' [state] (browserTools, w1) of
                 (Inl e, browserTools', w2) \<Rightarrow> (Inl e, browserTools', w2)
               | (Inr r, browserTools', w2) \<Rightarrow>
                   (Inr state, browserTools',
                    if label_truthy label then console_add Console_groupEnd w2 else w2)))
        else (Inr state, browserTools, w))"

definition starting_msg :: "string option \<Rightarrow> string" where
  "starting_msg label =
     ''Iniciando medi'' @ [CHR 0xE7, CHR 0xE3] @ ''o''
       @ (case label of None \<Rightarrow> []
          | Some l \<Rightarrow> if l \<noteq> [] then '': '' @ l else [])
       @ ''...''"

text \<open>A direct call \<open>fn()\<close> of a function value, with no arguments.\<close>

definition call0 ::
  "(jsval list \<Rightarrow> world \<Rightarrow> (jsval + jsval) \<times> world) \<Rightarrow> BrowserToolsMCP \<times> world
     \<Rightarrow> (jsval + arg) \<times> BrowserToolsMCP \<times> world" where
  "call0 fn st =
     (case st of (browserTools, w) \<Rightarrow>
        (case fn [] w of
           (Inl e, w') \<Rightarrow> (Inl e, browserTools, w')
         | (Inr v, w') \<Rightarrow> (Inr (Val v), browserTools, w')))"

definition useBrowserTools_measurePerformance ::
  "(jsval list \<Rightarrow> world \<Rightarrow> (jsval + jsval) \<times> world) \<Rightarrow> string option
     \<Rightarrow> BrowserToolsMCP \<times> world \<Rightarrow> (jsval + arg) \<times> BrowserToolsMCP \<times> world" where
  "useBrowserTools_measurePerformance fn label st =
     (case st of (browserTools, w) \<Rightarrow>
        if development w then
          executeTool ''measurePerformance'' [Fn fn]
            (browserTools, console_add (Console_log [Text [Lit (starting_msg label)]]) w)
        else call0 fn (browserTools, w))"

definition useBrowserTools_checkBrowserCompatibility ::
  "BrowserToolsMCP \<times> world \<Rightarrow> (jsval + arg) \<times> BrowserToolsMCP \<times> world" where
  "useBrowserTools_checkBrowserCompatibility st = executeTool ''checkBrowserCompatibility'' [] st"

section \<open>The server side: the Express integration\<close>

subsection \<open>The store client, the server and the configuration\<close>

text \<open>
  The record handed to \<open>insert\<close> is the object literal
  \<open>{type, data, timestamp, user_id}\<close>. In \<open>logEvent\<close> the \<open>data\<close> is whatever the
  caller passes, so the payload is an \<open>anyval\<close>.
\<close>

record new_event =
  ev_type :: jsval
  ev_data :: anyval
  ev_timestamp :: jsval
  ev_user_id :: jsval

text \<open>
  The store is the Supabase client, which is not part of the program; it is a
  parameter. A call either throws (\<open>Inl\<close>, the awaited promise rejects) or resolves
  to an object with the fields \<open>data\<close> and \<open>error\<close>
  (\<open>res_data\<close>, \<open>res_error\<close>). What the client throws or reports is an error
  object or plain data. \<open>'s\<close> is the state of the store.
  \<open>from_insert\<close> is \<open>from(table).insert(rows)\<close>, and \<open>from_select\<close> is
  \<open>from(table).select(columns)\<close> followed by the filters and the order collected in a
  \<open>select_query\<close>.
\<close>

record query_result =
  res_data :: jsval
  res_error :: jsval

record select_query =
  columns :: string
  eq_filters :: "(string \<times> jsval) list"
  gte_filters :: "(string \<times> jsval) list"
  order_by :: "(string \<times> bool) option"

record 's supabase_client =
  from_insert :: "string \<Rightarrow> new_event list \<Rightarrow> 's \<Rightarrow> (jsval + query_result) \<times> 's"
  from_select :: "string \<Rightarrow> select_query \<Rightarrow> 's \<Rightarrow> (jsval + query_result) \<times> 's"

text \<open>
  The server: its console, the state of the store, the clock that \<open>new Date()\<close> reads
  (milliseconds since the epoch), and the calendar of the runtime: \<open>local_time\<close> and
  \<open>utc_time\<close> are LocalTime and UTC of ECMAScript (the time zone), and
  \<open>month_start t\<close> is the day number of the first day of the month that the local
  time \<open>t\<close> lies in.

  \<open>console_format\<close> is what the console of the runtime does with a message and one
  further argument, as in \<open>console.log(message, data)\<close>: \<open>Some e\<close> when it throws
  \<open>e\<close>. Node reads the message as a printf pattern, whose directives convert the
  argument, and otherwise inspects the argument, running its inspection hook; either may
  throw. It is a parameter. A call with the message alone, and \<open>console.error\<close>
  with a constant message and an error object or plain data, are written without a throw.
\<close>

record 's server =
  srv_console :: "console_call list"
  db :: 's
  now :: int
  local_time :: "int \<Rightarrow> int"
  utc_time :: "int \<Rightarrow> int"
  month_start :: "int \<Rightarrow> int"
  console_format :: "piece list \<Rightarrow> log_arg \<Rightarrow> jsval option"

definition srv_log :: "console_call \<Rightarrow> 's server \<Rightarrow> 's server" where
  "srv_log c s = s\<lparr>srv_console := srv_console s @ [c]\<rparr>"

record BrowserToolsConfig =
  supabaseUrl :: "string option"
  supabaseKey :: "string option"
  cfg_tableName :: "string option"
  cfg_enableLogging :: "bool option"

record 's BrowserToolsExpress =
  supabaseClient :: "'s supabase_client option"
  tableName :: string
  enableLogging :: bool

text \<open>The constructor; \<open>createClient\<close> is the library's.\<close>

definition new_BrowserToolsExpress ::
  "(string \<Rightarrow> string \<Rightarrow> 's supabase_client) \<Rightarrow> BrowserToolsConfig \<Rightarrow> 's BrowserToolsExpress"
  where
  "new_BrowserToolsExpress createClient config =
     \<lparr>supabaseClient =
        (case (supabaseUrl config, supabaseKey config) of
           (Some url, Some key) \<Rightarrow>
             if url \<noteq> [] \<and> key \<noteq> [] then Some (createClient url key) else None
         | _ \<Rightarrow> None),
      tableName =
        (case cfg_tableName config of
           Some t \<Rightarrow> if t \<noteq> [] then t else ''browser_tools_events''
         | None \<Rightarrow> ''browser_tools_events''),
      enableLogging = (cfg_enableLogging config \<noteq> Some False)\<rparr>"

record response =
  status :: nat
  body :: jsval

text \<open>
  The \<open>catch\<close> block of a route: log the thrown value, answer 500 with its message.
  Reading \<open>error.message\<close> of a thrown undefined or null throws in turn, and then the
  handler itself fails (\<open>Inl\<close>) without a response.
\<close>

definition respond_500 :: "string \<Rightarrow> jsval \<Rightarrow> 's server \<Rightarrow> (jsval + response) \<times> 's server" where
  "respond_500 msg e s =
     (let s' = srv_log (Console_error [Text [Lit msg], Value e]) s
      in (case prop_get e ''message'' of
            Inl te \<Rightarrow> (Inl te, s')
          | Inr m \<Rightarrow> (Inr \<lparr>status = 500, body = JObj [(''error'', m)]\<rparr>, s')))"

subsection \<open>POST /events\<close>

text \<open>
  \<open>const { type, data, timestamp, userId } = req.body\<close>: a TypeError when the body is
  undefined or null, else four property reads.
\<close>

definition cannot_destructure :: "string \<Rightarrow> jsval" where
  "cannot_destructure what =
     JError ''TypeError''
       (''Cannot destructure property '' @ [sq] @ ''type'' @ [sq] @ '' of '' @ [sq]
          @ ''req.body'' @ [sq] @ '' as it is '' @ what @ ''.'')"

definition body_fields :: "jsval \<Rightarrow> jsval + jsval \<times> jsval \<times> jsval \<times> jsval" where
  "body_fields b =
     (if b = Undefined then Inl (cannot_destructure ''undefined'')
      else if b = Null then Inl (cannot_destructure ''null'')
      else
     (case prop_get b ''type'' of
        Inl e \<Rightarrow> Inl e
      | Inr t \<Rightarrow>
     (case prop_get b ''data'' of
        Inl e \<Rightarrow> Inl e
      | Inr d \<Rightarrow>
     (case prop_get b ''timestamp'' of
        Inl e \<Rightarrow> Inl e
      | Inr ts \<Rightarrow>
     (case prop_get b ''userId'' of
        Inl e \<Rightarrow> Inl e
      | Inr u \<Rightarrow> Inr (t, d, ts, u))))))"

definition or_else :: "jsval \<Rightarrow> jsval \<Rightarrow> jsval" where
  "or_else a b = (if truthy a then a else b)"

definition required_msg :: string where
  "required_msg = ''Tipo e dados do evento s'' @ [CHR 0xE3] @ ''o obrigat'' @ [CHR 0xF3] @ ''rios''"

definition post_error_msg :: string where
  "post_error_msg = ''[Browser Tools] Erro ao registrar evento:''"

definition sem_persistencia :: string where
  "sem_persistencia = ''(sem persist'' @ [CHR 0xEA] @ ''ncia): ''"

text \<open>
  The handler. Both log lines hold the template substitution \<open>${type}\<close>, whose
  ToString is evaluated before \<open>console.log\<close> is called and may throw; the log line
  without a store is also given \<open>data\<close>, on which the console may throw. Everything
  is inside the \<open>try\<close>, so a throw after the insert still ends in the \<open>catch\<close>.
\<close>

definition received_pattern :: "jsval \<Rightarrow> piece list" where
  "received_pattern type =
     [Lit (''[Browser Tools] Evento recebido '' @ sem_persistencia), Interp type]"

definition post_events ::
  "'s BrowserToolsExpress \<Rightarrow> jsval \<Rightarrow> 's server \<Rightarrow> (jsval + response) \<times> 's server" where
  "post_events this req_body s =
     (case body_fields req_body of
        Inl e \<Rightarrow> respond_500 post_error_msg e s
      | Inr (type, data, timestamp, userId) \<Rightarrow>
          if \<not> truthy type \<or> \<not> truthy data then
            (Inr \<lparr>status = 400, body = JObj [(''error'', JStr required_msg)]\<rparr>, s)
          else
            (case supabaseClient this of
               Some client \<Rightarrow>
                 (case from_insert client (tableName this)
                         [\<lparr>ev_type = type, ev_data = Plain data,
                           ev_timestamp = or_else timestamp (JIso (now s)),
                           ev_user_id = or_else userId Null\<rparr>]
                         (db s) of
                    (Inl e, db') \<Rightarrow> respond_500 post_error_msg e (s\<lparr>db := db'\<rparr>)
                  | (Inr r, db') \<Rightarrow>
                      if truthy (res_error r) then
                        respond_500 post_error_msg (res_error r) (s\<lparr>db := db'\<rparr>)
                      else if enableLogging this then
                        (case to_string_throws type of
                           Some e \<Rightarrow> respond_500 post_error_msg e (s\<lparr>db := db'\<rparr>)
                         | None \<Rightarrow>
                             (Inr \<lparr>status = 201,
                                   body = JObj [(''success'', JBool True),
                                                (''event'', res_data r)]\<rparr>,
                              srv_log (Console_log
                                 [Text [Lit ''[Browser Tools] Evento registrado: '',
                                        Interp type]])
                                (s\<lparr>db := db'\<rparr>)))
                      else
                        (Inr \<lparr>status = 201,
                              body = JObj [(''success'', JBool True), (''event'', res_data r)]\<rparr>,
                         s\<lparr>db := db'\<rparr>))
             | None \<Rightarrow>
                 if enableLogging this then
                   (case to_string_throws type of
                      Some e \<Rightarrow> respond_500 post_error_msg e s
                    | None \<Rightarrow>
                        (case console_format s (received_pattern type) (Value data) of
                           Some e \<Rightarrow> respond_500 post_error_msg e s
                         | None \<Rightarrow>
                             (Inr \<lparr>status = 200,
                                   body = JObj [(''success'', JBool True),
                                                (''persisted'', JBool False)]\<rparr>,
                              srv_log (Console_log
                                 [Text (received_pattern type), Value data])
                                s)))
                 else
                   (Inr \<lparr>status = 200,
                         body = JObj [(''success'', JBool True), (''persisted'', JBool False)]\<rparr>,
                    s)))"

subsection \<open>Numbers\<close>

text \<open>
  A finite number is a double; \<open>Finite q\<close> holds the rational it denotes. The
  difference of two doubles is the exact difference rounded to the nearest double, ties
  to even, and to an infinity on overflow (IEEE 754 binary64). \<open>floor_log2 x\<close> is the
  \<open>e\<close> with \<open>2^e \<le> x < 2^(e+1)\<close> for a positive \<open>x\<close>; the unit in the last
  place of a double near \<open>x\<close> is \<open>2^(e - 52)\<close>, and \<open>2^(-1074)\<close> for the
  subnormal ones.
\<close>

definition floor_log2 :: "rat \<Rightarrow> int" where
  "floor_log2 x = (if 1 \<le> x then bitlen \<lfloor>x\<rfloor> - 1 else - bitlen (\<lceil>1 / x\<rceil> - 1))"

definition round_half_even :: "rat \<Rightarrow> int" where
  "round_half_even y =
     (let f = \<lfloor>y\<rfloor>; r = y - of_int f
      in if r < 1 / 2 then f else if 1 / 2 < r then f + 1 else if even f then f else f + 1)"

definition to_double :: "rat \<Rightarrow> jsnum" where
  "to_double x =
     (if x = 0 then Finite 0
      else
        (let e = max (floor_log2 \<bar>x\<bar> - 52) (- 1074);
             y = of_int (round_half_even (x / 2 powi e)) * 2 powi e
         in if 2 ^ 1024 \<le> \<bar>y\<bar> then (if 0 < x then PosInfinity else NegInfinity)
            else Finite y))"

text \<open>\<open>a - b\<close> for an integer \<open>a\<close> (a day of the month) and a number \<open>b\<close>.\<close>

fun int_minus :: "int \<Rightarrow> jsnum \<Rightarrow> jsnum" where
  "int_minus a (Finite q) = to_double (of_int a - q)"
| "int_minus a NaN = NaN"
| "int_minus a PosInfinity = NegInfinity"
| "int_minus a NegInfinity = PosInfinity"

subsection \<open>Dates\<close>

text \<open>
  A Date holds a time value, or is invalid (\<open>None\<close>). \<open>getDate\<close> is the day of the
  month of the local time; \<open>setDate\<close> is MakeDay for the year and month of the local
  time and the given day of the month, MakeDate with the time within the day, then UTC
  and TimeClip, as ECMAScript defines them. The argument of \<open>setDate\<close> is truncated
  towards zero (ToIntegerOrInfinity), and one that is not finite makes the Date invalid.
\<close>

definition msPerDay :: int where
  "msPerDay = 86400000"

definition Day :: "int \<Rightarrow> int" where
  "Day t = t div msPerDay"

definition TimeWithinDay :: "int \<Rightarrow> int" where
  "TimeWithinDay t = t mod msPerDay"

definition TimeClip :: "int \<Rightarrow> int option" where
  "TimeClip t = (if \<bar>t\<bar> > 8640000000000000 then None else Some t)"

definition to_integer :: "rat \<Rightarrow> int" where
  "to_integer q = (if 0 \<le> q then \<lfloor>q\<rfloor> else \<lceil>q\<rceil>)"

definition getDate :: "'s server \<Rightarrow> int \<Rightarrow> int" where
  "getDate s tv = Day (local_time s tv) - month_start s (local_time s tv) + 1"

definition setDate :: "'s server \<Rightarrow> int \<Rightarrow> jsnum \<Rightarrow> int option" where
  "setDate s tv dt =
     (case dt of
        Finite q \<Rightarrow>
          (let t = local_time s tv;
               day = month_start s t + to_integer q - 1;
               newDate = day * msPerDay + TimeWithinDay t
           in TimeClip (utc_time s newDate))
      | _ \<Rightarrow> None)"

definition toISOString :: "int option \<Rightarrow> jsval + jsval" where
  "toISOString tv =
     (case tv of None \<Rightarrow> Inl (JError ''RangeError'' ''Invalid time value'')
      | Some t \<Rightarrow> Inr (JIso t))"

subsection \<open>GET /metrics/performance\<close>

text \<open>
  \<open>days\<close> is what \<open>Number(days)\<close> makes of the query's value: \<open>None\<close> when the
  query has no \<open>days\<close> (the default 7 applies), otherwise the number, which is NaN for a
  value that is not numeric.
\<close>

definition days_number :: "jsnum option \<Rightarrow> jsnum" where
  "days_number days = (case days of None \<Rightarrow> Finite 7 | Some n \<Rightarrow> n)"

definition performance_query :: "jsval \<Rightarrow> select_query" where
  "performance_query start =
     \<lparr>columns = ''*'',
      eq_filters = [(''type'', JStr ''performance'')],
      gte_filters = [(''timestamp'', start)],
      order_by = Some (''timestamp'', False)\<rparr>"

text \<open>The function mapped over the rows; it throws when a read does.\<close>

definition metric_of :: "jsval \<Rightarrow> jsval + jsval" where
  "metric_of event =
     (case prop_get event ''id'' of
        Inl e \<Rightarrow> Inl e
      | Inr i \<Rightarrow>
     (case prop_get event ''timestamp'' of
        Inl e \<Rightarrow> Inl e
      | Inr ts \<Rightarrow>
     (case prop_get event ''data'' of
        Inl e \<Rightarrow> Inl e
      | Inr d \<Rightarrow>
     (case prop_get d ''operation'' of
        Inl e \<Rightarrow> Inl e
      | Inr operation \<Rightarrow>
     (case prop_get d ''duration'' of
        Inl e \<Rightarrow> Inl e
      | Inr duration \<Rightarrow>
     (case prop_get event ''user_id'' of
        Inl e \<Rightarrow> Inl e
      | Inr u \<Rightarrow>
          Inr (JObj [(''id'', i), (''timestamp'', ts), (''operation'', operation),
                     (''duration'', duration), (''userId'', u)])))))))"

fun map_throwing :: "(jsval \<Rightarrow> jsval + jsval) \<Rightarrow> jsval list \<Rightarrow> jsval + jsval list" where
  "map_throwing f [] = Inr []"
| "map_throwing f (x # xs) =
     (case f x of
        Inl e \<Rightarrow> Inl e
      | Inr y \<Rightarrow> (case map_throwing f xs of Inl e \<Rightarrow> Inl e | Inr ys \<Rightarrow> Inr (y # ys)))"

text \<open>\<open>data.map(f)\<close>: only an array has \<open>map\<close>.\<close>

fun data_map :: "(jsval \<Rightarrow> jsval + jsval) \<Rightarrow> jsval \<Rightarrow> jsval + jsval list" where
  "data_map f (JArr rows) = map_throwing f rows"
| "data_map f Undefined = Inl (cannot_read ''undefined'' ''map'')"
| "data_map f Null = Inl (cannot_read ''null'' ''map'')"
| "data_map f v = Inl (JError ''TypeError'' ''data.map is not a function'')"

definition metrics_error_msg :: string where
  "metrics_error_msg =
     ''[Browser Tools] Erro ao obter m'' @ [CHR 0xE9] @ ''tricas de performance:''"

definition not_configured_msg :: string where
  "not_configured_msg = ''Supabase n'' @ [CHR 0xE3] @ ''o configurado''"

definition get_metrics_performance ::
  "'s BrowserToolsExpress \<Rightarrow> jsnum option \<Rightarrow> 's server \<Rightarrow> (jsval + response) \<times> 's server"
  where
  "get_metrics_performance this days s =
     (case supabaseClient this of
        None \<Rightarrow> (Inr \<lparr>status = 503, body = JObj [(''error'', JStr not_configured_msg)]\<rparr>, s)
      | Some client \<Rightarrow>
          (let startDate = setDate s (now s) (int_minus (getDate s (now s)) (days_number days))
           in (case toISOString startDate of
                 Inl e \<Rightarrow> respond_500 metrics_error_msg e s
               | Inr start \<Rightarrow>
                   (case from_select client (tableName this) (performance_query start) (db s) of
                      (Inl e, db') \<Rightarrow> respond_500 metrics_error_msg e (s\<lparr>db := db'\<rparr>)
                    | (Inr r, db') \<Rightarrow>
                        if truthy (res_error r) then
                          respond_500 metrics_error_msg (res_error r) (s\<lparr>db := db'\<rparr>)
                        else
                          (case data_map metric_of (res_data r) of
                             Inl e \<Rightarrow> respond_500 metrics_error_msg e (s\<lparr>db := db'\<rparr>)
                           | Inr metrics \<Rightarrow>
                               (Inr \<lparr>status = 200, body = JArr metrics\<rparr>,
                                s\<lparr>db := db'\<rparr>))))))"

subsection \<open>GET /status and the middleware\<close>

definition get_status :: "'s BrowserToolsExpress \<Rightarrow> response" where
  "get_status this =
     \<lparr>status = 200,
      body = JObj [(''enabled'', JBool True), (''version'', JStr ''1.0.0''),
                   (''supabase'', JBool (supabaseClient this \<noteq> None)),
                   (''features'', JArr [JStr ''performance-monitoring'',
                                        JStr ''compatibility-check'',
                                        JStr ''event-logging''])]\<rparr>"

subsection \<open>logEvent\<close>

definition server_error_msg :: string where
  "server_error_msg = ''[Browser Tools] Erro ao registrar evento do servidor:''"

text \<open>The record that \<open>logEvent\<close> inserts; \<open>userId || null\<close> for an optional string.\<close>

definition server_event :: "string \<Rightarrow> anyval \<Rightarrow> string option \<Rightarrow> int \<Rightarrow> new_event" where
  "server_event type data userId t =
     \<lparr>ev_type = JStr type, ev_data = data, ev_timestamp = JIso t,
      ev_user_id = (case userId of
                      None \<Rightarrow> Null
                    | Some u \<Rightarrow> if u \<noteq> [] then JStr u else Null)\<rparr>"

text \<open>
  \<open>logEvent\<close>: without a store, log and return false; this \<open>console.log\<close> is given
  \<open>data\<close> and stands before the \<open>try\<close>, so when the console throws on it the
  call fails (\<open>Inl\<close>). Otherwise insert inside \<open>try\<close>; an error in the result
  and a thrown value are both logged and give false.
\<close>

definition server_pattern :: "string \<Rightarrow> piece list" where
  "server_pattern type =
     [Lit (''[Browser Tools] Evento do servidor '' @ sem_persistencia @ type)]"

definition logEvent ::
  "'s BrowserToolsExpress \<Rightarrow> string \<Rightarrow> anyval \<Rightarrow> string option \<Rightarrow> 's server
     \<Rightarrow> (jsval + bool) \<times> 's server" where
  "logEvent this type data userId s =
     (case supabaseClient this of
        None \<Rightarrow>
          if enableLogging this then
            (case console_format s (server_pattern type) (log_value data) of
               Some e \<Rightarrow> (Inl e, s)
             | None \<Rightarrow>
                 (Inr False,
                  srv_log (Console_log [Text (server_pattern type), log_value data]) s))
          else (Inr False, s)
      | Some client \<Rightarrow>
          (case from_insert client (tableName this)
                  [server_event type data userId (now s)] (db s) of
             (Inl e, db') \<Rightarrow>
               (Inr False, srv_log (Console_error [Text [Lit server_error_msg], Value e])
                             (s\<lparr>db := db'\<rparr>))
           | (Inr r, db') \<Rightarrow>
               if truthy (res_error r) then
                 (Inr False, srv_log (Console_error [Text [Lit server_error_msg], Value (res_error r)])
                               (s\<lparr>db := db'\<rparr>))
               else
                 (Inr True,
                  (if enableLogging this
                   then srv_log (Console_log
                          [Text [Lit (''[Browser Tools] Evento do servidor registrado: '' @ type)]])
                   else (\<lambda>x. x)) (s\<lparr>db := db'\<rparr>))))"

section \<open>The event store of the specification\<close>

text \<open>
  Modelled from the spec: the external event store (the Supabase service behind the
  client), of which the program has only the calls. The spec describes it as a store of
  append-only records with \<open>insert(collection, records)\<close> and
  \<open>select(collection, filter, ordering)\<close>, each returning \<open>(data, error)\<close>. A
  collection is the list of its records in the order of insertion. It holds plain data:
  a record whose payload is not plain data is refused with an error. Timestamps are
  compared as instants: \<open>JIso t\<close> is the instant \<open>t\<close>, and a string is the instant
  that the store reads in it, if any; \<open>reads\<close> is this reading of the store, a
  parameter. A record whose timestamp is no instant passes no \<open>gte\<close> filter.
\<close>

type_synonym event_store = "string \<Rightarrow> jsval list"

fun time_of :: "(string \<Rightarrow> int option) \<Rightarrow> jsval \<Rightarrow> int option" where
  "time_of reads (JIso t) = Some t"
| "time_of reads (JStr text) = reads text"
| "time_of reads v = None"

definition field :: "jsval \<Rightarrow> string \<Rightarrow> jsval" where
  "field v p = (case prop_get v p of Inl e \<Rightarrow> Undefined | Inr x \<Rightarrow> x)"

definition field_eq :: "jsval \<Rightarrow> string \<times> jsval \<Rightarrow> bool" where
  "field_eq row f = (case f of (c, v) \<Rightarrow> prop_get row c = Inr v)"

definition field_gte :: "(string \<Rightarrow> int option) \<Rightarrow> jsval \<Rightarrow> string \<times> jsval \<Rightarrow> bool" where
  "field_gte reads row f =
     (case f of (c, v) \<Rightarrow>
        (case (time_of reads (field row c), time_of reads v) of
           (Some a, Some b) \<Rightarrow> b \<le> a
         | _ \<Rightarrow> False))"

definition row_selected :: "(string \<Rightarrow> int option) \<Rightarrow> select_query \<Rightarrow> jsval \<Rightarrow> bool" where
  "row_selected reads q row =
     (list_all (field_eq row) (eq_filters q) \<and> list_all (field_gte reads row) (gte_filters q))"

definition order_key :: "(string \<Rightarrow> int option) \<Rightarrow> string \<Rightarrow> jsval \<Rightarrow> int" where
  "order_key reads c row = (case time_of reads (field row c) of Some t \<Rightarrow> t | None \<Rightarrow> 0)"

definition ordered ::
  "(string \<Rightarrow> int option) \<Rightarrow> (string \<times> bool) option \<Rightarrow> jsval list \<Rightarrow> jsval list" where
  "ordered reads ord rows =
     (case ord of
        None \<Rightarrow> rows
      | Some (c, ascending) \<Rightarrow>
          if ascending then sort_key (order_key reads c) rows
          else sort_key (\<lambda>row. - order_key reads c row) rows)"

definition stored :: "new_event \<Rightarrow> jsval list" where
  "stored ev =
     (case ev_data ev of
        Plain d \<Rightarrow>
          [JObj [(''type'', ev_type ev), (''data'', d), (''timestamp'', ev_timestamp ev),
                 (''user_id'', ev_user_id ev)]]
      | Exotic \<Rightarrow> [])"

definition store_insert ::
  "string \<Rightarrow> new_event list \<Rightarrow> event_store \<Rightarrow> (jsval + query_result) \<times> event_store" where
  "store_insert collection records st =
     (if list_all (\<lambda>ev. stored ev \<noteq> []) records
      then (Inr \<lparr>res_data = Null, res_error = Null\<rparr>,
            st(collection := st collection @ concat (map stored records)))
      else (Inr \<lparr>res_data = Null,
                 res_error = JObj [(''message'', JStr ''invalid input syntax for type json'')]\<rparr>,
            st))"

definition store_select ::
  "(string \<Rightarrow> int option) \<Rightarrow> string \<Rightarrow> select_query \<Rightarrow> event_store
     \<Rightarrow> (jsval + query_result) \<times> event_store" where
  "store_select reads collection q st =
     (Inr \<lparr>res_data = JArr (ordered reads (order_by q)
                              (filter (row_selected reads q) (st collection))),
           res_error = Null\<rparr>, st)"

definition store_client :: "(string \<Rightarrow> int option) \<Rightarrow> event_store supabase_client" where
  "store_client reads = \<lparr>from_insert = store_insert, from_select = store_select reads\<rparr>"

text \<open>
  The spec's words for the result of the metrics query: the cutoff is now minus
  \<open>days\<close> days (\<open>d\<close> days back on the local clock); the result is the records of
  type \<open>performance\<close> with timestamp at or after the cutoff, newest first, each
  projected to \<open>{id, timestamp, operation, duration, userId}\<close>.
\<close>

definition cutoff :: "'s server \<Rightarrow> int \<Rightarrow> int" where
  "cutoff s d = utc_time s (local_time s (now s) - d * msPerDay)"

text \<open>
  What holds of the clock and the calendar of every ECMAScript runtime, at the instants
  the metrics query uses: the clock shows a valid time value, the day of the month is
  between 1 and 31, and local time and UTC differ by at most a day.
\<close>

definition calendar_ok :: "'s server \<Rightarrow> int \<Rightarrow> bool" where
  "calendar_ok s d =
     (let t = local_time s (now s)
      in \<bar>now s\<bar> \<le> 8640000000000000 \<and>
         1 \<le> getDate s (now s) \<and> getDate s (now s) \<le> 31 \<and>
         \<bar>t - now s\<bar> \<le> msPerDay \<and>
         \<bar>utc_time s (t - d * msPerDay) - (t - d * msPerDay)\<bar> \<le> msPerDay)"

definition is_performance_since :: "(string \<Rightarrow> int option) \<Rightarrow> int \<Rightarrow> jsval \<Rightarrow> bool" where
  "is_performance_since reads c row =
     (prop_get row ''type'' = Inr (JStr ''performance'') \<and>
      (case time_of reads (field row ''timestamp'') of Some t \<Rightarrow> c \<le> t | None \<Rightarrow> False))"

definition event_time :: "(string \<Rightarrow> int option) \<Rightarrow> jsval \<Rightarrow> int" where
  "event_time reads row =
     (case time_of reads (field row ''timestamp'') of Some t \<Rightarrow> t | None \<Rightarrow> 0)"

definition newest_first :: "(string \<Rightarrow> int option) \<Rightarrow> jsval list \<Rightarrow> jsval list" where
  "newest_first reads rows = sort_key (\<lambda>row. - event_time reads row) rows"

definition projected :: "jsval \<Rightarrow> jsval" where
  "projected row =
     JObj [(''id'', field row ''id''), (''timestamp'', field row ''timestamp''),
           (''operation'', field (field row ''data'') ''operation''),
           (''duration'', field (field row ''data'') ''duration''),
           (''userId'', field row ''user_id'')]"

definition has_payload :: "jsval \<Rightarrow> bool" where
  "has_payload row = (field row ''data'' \<noteq> Undefined \<and> field row ''data'' \<noteq> Null)"

section \<open>Example inputs\<close>

definition tool_A :: BrowserTool where
  "tool_A = \<lparr>name = ''t'', description = ''first'',
             execute = (\<lambda>args w. (Inr (Val (JStr ''A'')), w))\<rparr>"

definition tool_B :: BrowserTool where
  "tool_B = \<lparr>name = ''t'', description = ''second'',
             execute = (\<lambda>args w. (Inr (Val (JStr ''B'')), w))\<rparr>"


definition world0 :: world where
  "world0 = \<lparr>console = [], node_env = None, window = None, navigator = None,
              document = None\<rparr>"

definition browser_blocking_storage :: world where
  "browser_blocking_storage =
     \<lparr>console = [], node_env = None,
      window = Some (\<lambda>p. if p = ''localStorage''
                          then Inl (JError ''SecurityError'' ''The operation is insecure.'')
                          else Inr Undefined),
      navigator = Some (\<lambda>p. False),
      document = None\<rparr>"

definition bare_browser :: world where
  "bare_browser =
     \<lparr>console = [], node_env = None,
      window = Some (\<lambda>p. if p = ''localStorage'' then Inr (JObj []) else Inr Undefined),
      navigator = Some (\<lambda>p. False),
      document = Some (\<lambda>tag. Inl (JError ''Error'' ''no canvas''))\<rparr>"

definition returns_42 :: "jsval list \<Rightarrow> world \<Rightarrow> (jsval + jsval) \<times> world" where
  "returns_42 xs w = (Inr (JNum (Finite 42)), w)"

text \<open>
  The console of the examples, on the calls they make. An argument that is not plain
  data is an object whose inspection hook (Node's \<open>util.inspect.custom\<close>) throws. A
  message whose substitution is the directive \<open>%d\<close> has the argument converted to a
  number, which throws when the conversion of the argument to a primitive does. Every
  other call is written.
\<close>

definition node_console :: "piece list \<Rightarrow> log_arg \<Rightarrow> jsval option" where
  "node_console pattern a =
     (case a of
        Opaque \<Rightarrow> Some (JError ''Error'' ''inspect failed'')
      | Value v \<Rightarrow> if Interp (JStr ''%d'') \<in> set pattern then to_string_throws v else None
      | Text ps \<Rightarrow> None)"

text \<open>
  A server at 2023-11-14T22:13:20Z in the time zone UTC. Day 19662 is the first of
  November 2023, the month of every time value these examples reach.
\<close>

definition server0 :: "event_store server" where
  "server0 =
     \<lparr>srv_console = [], db = (\<lambda>collection. []), now = 1700000000000,
      local_time = (\<lambda>t. t), utc_time = (\<lambda>t. t), month_start = (\<lambda>t. 19662),
      console_format = node_console\<rparr>"

text \<open>The store's reading of a timestamp text, at the one text the examples use.\<close>

definition read_iso :: "string \<Rightarrow> int option" where
  "read_iso text = (if text = ''2023-11-14T00:00:00Z'' then Some 1699920000000 else None)"

definition performance_row :: "int \<Rightarrow> jsval \<Rightarrow> jsval" where
  "performance_row i ts =
     JObj [(''id'', JNum (Finite (of_int i))), (''type'', JStr ''performance''),
           (''data'', JObj [(''operation'', JStr ''render''), (''duration'', JNum (Finite 12))]),
           (''timestamp'', ts), (''user_id'', Null)]"

text \<open>
  The same server with five records in the collection: performance events of two, ten
  and one day before now, a click, and a performance event of the same day whose
  timestamp is the text a client sent.
\<close>

definition server1 :: "event_store server" where
  "server1 =
     \<lparr>srv_console = [],
      db = (\<lambda>collection.
              if collection = ''browser_tools_events''
              then [performance_row 1 (JIso 1699827200000),
                    performance_row 2 (JIso 1699136000000),
                    JObj [(''id'', JNum (Finite 4)), (''type'', JStr ''click''),
                          (''data'', JObj []), (''timestamp'', JIso 1699990000000),
                          (''user_id'', Null)],
                    performance_row 3 (JIso 1699913600000),
                    performance_row 5 (JStr ''2023-11-14T00:00:00Z'')]
              else []),
      now = 1700000000000,
      local_time = (\<lambda>t. t), utc_time = (\<lambda>t. t), month_start = (\<lambda>t. 19662),
      console_format = node_console\<rparr>"

definition no_store :: "event_store BrowserToolsExpress" where
  "no_store = \<lparr>supabaseClient = None, tableName = ''browser_tools_events'', enableLogging = False\<rparr>"

text \<open>What the constructor builds from an empty configuration: logging is on.\<close>

definition no_store_logging :: "event_store BrowserToolsExpress" where
  "no_store_logging =
     \<lparr>supabaseClient = None, tableName = ''browser_tools_events'', enableLogging = True\<rparr>"

definition with_store :: "event_store BrowserToolsExpress" where
  "with_store =
     \<lparr>supabaseClient = Some (store_client read_iso), tableName = ''browser_tools_events'',
      enableLogging = False\<rparr>"



definition click_event :: jsval where
  "click_event =
     JObj [(''type'', JStr ''click''), (''data'', JObj [(''x'', JNum (Finite 1))])]"

text \<open>The body \<open>{"type": {"toString": 1}, "data": {"x": 1}}\<close>.\<close>

definition odd_type_event :: jsval where
  "odd_type_event =
     JObj [(''type'', JObj [(''toString'', JNum (Finite 1))]),
           (''data'', JObj [(''x'', JNum (Finite 1))])]"

text \<open>The body \<open>{"type": "%d", "data": {"toString": 1}}\<close>.\<close>

definition directive_event :: jsval where
  "directive_event =
     JObj [(''type'', JStr ''%d''), (''data'', JObj [(''toString'', JNum (Finite 1))])]"


section \<open>Properties of the registry\<close>

lemma map_of_map_set: "map_of (map_set k v m) k' = (if k' = k then Some v else map_of m k')"
  by (induction m) auto

lemma map_has_map_set: "map_has (map_set k v m) k"
  by (simp add: map_has_def map_of_map_set)

lemma map_of_None_iff: "map_of m k = None \<longleftrightarrow> k \<notin> fst ` set m"
  by (simp add: map_of_eq_None_iff)

lemma registerTool_tools:
  "tools (fst (registerTool tool (this, w))) = map_set (name tool) tool (tools this)"
  by (simp add: registerTool_def Let_def)

lemma registerTool_console_fresh:
  "\<not> map_has (tools this) (name tool) \<Longrightarrow>
   console (snd (registerTool tool (this, w))) =
     console w @ [Console_log [Text [Lit (registered_msg (name tool))]]]"
  by (simp add: registerTool_def Let_def console_add_def)

lemma registerTool_console_taken:
  "map_has (tools this) (name tool) \<Longrightarrow>
   console (snd (registerTool tool (this, w))) =
     console w @ [Console_warn [Text [Lit (replacing_msg (name tool))]],
                  Console_log [Text [Lit (registered_msg (name tool))]]]"
  by (simp add: registerTool_def Let_def console_add_def)

lemma executeTool_found:
  "map_of (tools this) n = Some tool \<Longrightarrow>
   executeTool n args (this, w) =
     (case execute tool args w of
        (Inr r, w') \<Rightarrow> (Inr r, this, w')
      | (Inl e, w') \<Rightarrow>
          (Inl e, this,
           console_add (Console_error [Text [Lit (execute_error_msg n)], Value e]) w'))"
  by (simp add: executeTool_def)

text \<open>
  C1. Registering tool \<open>b\<close> after tool \<open>a\<close> of the same name replaces the entry:
  from then on \<open>executeTool\<close> of that name runs \<open>b\<close>'s executable (inside the
  catch-and-rethrow boundary), and the second registration only adds a warning and the
  usual log line to the console.
\<close>

theorem registerTool_same_name_replaces:
  "name b = name a \<Longrightarrow>
   (case registerTool b (registerTool a (this, w)) of
      (this2, w2) \<Rightarrow>
        map_of (tools this2) (name a) = Some b \<and>
        (\<forall>args w'.
           executeTool (name a) args (this2, w') =
             (case execute b args w' of
                (Inr r, w'') \<Rightarrow> (Inr r, this2, w'')
              | (Inl e, w'') \<Rightarrow>
                  (Inl e, this2,
                   console_add
                     (Console_error [Text [Lit (execute_error_msg (name a))], Value e]) w''))) \<and>
        console w2 =
          console (snd (registerTool a (this, w)))
            @ [Console_warn [Text [Lit (replacing_msg (name b))]],
               Console_log [Text [Lit (registered_msg (name b))]]])"
proof -
  assume same: "name b = name a"
  obtain this1 w1 where r1: "registerTool a (this, w) = (this1, w1)"
    by (cases "registerTool a (this, w)")
  obtain this2 w2 where r2: "registerTool b (this1, w1) = (this2, w2)"
    by (cases "registerTool b (this1, w1)")
  have t1: "tools this1 = map_set (name a) a (tools this)"
    using registerTool_tools [of a this w] r1 by simp
  have taken: "map_has (tools this1) (name b)"
    using t1 same by (simp add: map_has_map_set)
  have t2: "tools this2 = map_set (name b) b (tools this1)"
    using registerTool_tools [of b this1 w1] r2 by simp
  have found: "map_of (tools this2) (name a) = Some b"
    using t2 same by (simp add: map_of_map_set)
  have cons: "console w2 = console w1
      @ [Console_warn [Text [Lit (replacing_msg (name b))]],
         Console_log [Text [Lit (registered_msg (name b))]]]"
    using registerTool_console_taken [OF taken, of w1] r2 by simp
  show ?thesis
    using found cons executeTool_found [OF found] by (simp add: r1 r2)
qed

theorem registerTool_same_name_replaces_witness:
  "name tool_B = name tool_A \<and>
   fst (executeTool ''t'' []
          (fst (registerTool tool_B (registerTool tool_A (\<lparr>tools = []\<rparr>, world0))), world0))
     = Inr (Val (JStr ''B'')) \<and>
   console (snd (registerTool tool_B (registerTool tool_A (\<lparr>tools = []\<rparr>, world0)))) =
     [Console_log [Text [Lit (registered_msg ''t'')]],
      Console_warn [Text [Lit (replacing_msg ''t'')]],
      Console_log [Text [Lit (registered_msg ''t'')]]]"
proof -
  have same: "name tool_B = name tool_A"
    by (simp add: tool_A_def tool_B_def)
  have first: "console (snd (registerTool tool_A (\<lparr>tools = []\<rparr>, world0))) =
      [Console_log [Text [Lit (registered_msg ''t'')]]]"
    by (simp add: registerTool_def Let_def console_add_def map_has_def tool_A_def world0_def)
  show ?thesis
    using registerTool_same_name_replaces [OF same, of "\<lparr>tools = []\<rparr>" world0] same first
    by (auto simp: tool_A_def tool_B_def split: prod.splits)
qed

text \<open>
  C2. For a name that is not a key of the registry, \<open>executeTool\<close> throws an Error
  whose message contains the name; the world is as before, so no executable has run,
  and the registry is as before.
\<close>

theorem executeTool_unknown_name:
  "n \<notin> fst ` set (tools this) \<Longrightarrow>
   executeTool n args (this, w) = (Inl (JError ''Error'' (not_found_msg n)), this, w) \<and>
   not_found_msg n =
     ''Ferramenta '' @ [dq] @ n @ [dq] @ '' n'' @ [CHR 0xE3] @ ''o encontrada.''"
  by (simp add: executeTool_def not_found_msg_def map_of_None_iff [symmetric])

theorem executeTool_unknown_name_witness:
  "''nonexistent'' \<notin> fst ` set (tools \<lparr>tools = [(''t'', tool_A)]\<rparr>) \<and>
   executeTool ''nonexistent'' [] (\<lparr>tools = [(''t'', tool_A)]\<rparr>, world0) =
     (Inl (JError ''Error'' (not_found_msg ''nonexistent'')),
      \<lparr>tools = [(''t'', tool_A)]\<rparr>, world0)"
proof -
  have absent: "''nonexistent'' \<notin> fst ` set (tools \<lparr>tools = [(''t'', tool_A)]\<rparr>)"
    by simp
  show ?thesis
    using executeTool_unknown_name [OF absent, of "[]" world0] absent by simp
qed



section \<open>Properties of the capability probe and of the hook\<close>

lemma window_get_Some: "window w = Some g \<Longrightarrow> window_get w p = g p"
  by (simp add: window_get_def)

lemma webRTC_probe_returns:
  assumes "window w = Some g"
    and "\<forall>p\<in>set unguarded_reads. \<exists>v. g p = Inr v"
  shows "\<exists>b. webRTC_probe w = Inr b"
proof -
  obtain a where a: "g ''RTCPeerConnection'' = Inr a"
    using assms(2) by (auto simp: unguarded_reads_def)
  obtain b where b: "g ''webkitRTCPeerConnection'' = Inr b"
    using assms(2) by (auto simp: unguarded_reads_def)
  obtain c where c: "g ''mozRTCPeerConnection'' = Inr c"
    using assms(2) by (auto simp: unguarded_reads_def)
  show ?thesis
    by (auto simp: webRTC_probe_def window_get_Some [OF assms(1)] a b c)
qed

text \<open>
  C8 (amended). In a host where \<open>window\<close> and \<open>navigator\<close> exist and the reads of
  the six \<open>window\<close> properties outside the \<open>try\<close> do not throw, the probe returns
  an object whose keys are exactly the six capability names, each with a boolean value,
  and shows it with \<open>console.table\<close>. This holds whatever \<open>document\<close>, the canvas
  and \<open>getContext\<close> do, throwing included: the webGL probe alone is guarded.
\<close>

theorem checkBrowserCompatibility_six_booleans:
  assumes "window w = Some g"
    and "\<forall>p\<in>set unguarded_reads. \<exists>v. g p = Inr v"
    and "navigator w = Some has"
  shows "\<exists>features.
           execute checkBrowserCompatibility_tool args w =
             (Inr (Val (JObj features)), console_add (Console_table (JObj features)) w) \<and>
           map fst features = capability_names \<and>
           list_all is_JBool (map snd features)"
proof -
  obtain ls where ls: "g ''localStorage'' = Inr ls"
    using assms(2) by (auto simp: unguarded_reads_def)
  obtain ss where ss: "g ''sessionStorage'' = Inr ss"
    using assms(2) by (auto simp: unguarded_reads_def)
  obtain ws where ws: "g ''WebSocket'' = Inr ws"
    using assms(2) by (auto simp: unguarded_reads_def)
  obtain rtc where rtc: "webRTC_probe w = Inr rtc"
    using webRTC_probe_returns [OF assms(1) assms(2)] by blast
  show ?thesis
    by (simp add: checkBrowserCompatibility_tool_def checkBrowserCompatibility_execute_def
        window_get_Some [OF assms(1)] ls ss ws rtc in_navigator_def assms(3)
        capability_names_def Let_def)
qed

theorem checkBrowserCompatibility_six_booleans_witness:
  "execute checkBrowserCompatibility_tool [] bare_browser =
     (Inr (Val (JObj [(''localStorage'', JBool True), (''sessionStorage'', JBool False),
                      (''webSockets'', JBool False), (''serviceWorkers'', JBool False),
                      (''webGL'', JBool False), (''webRTC'', JBool False)])),
      console_add
        (Console_table (JObj [(''localStorage'', JBool True), (''sessionStorage'', JBool False),
                      (''webSockets'', JBool False), (''serviceWorkers'', JBool False),
                      (''webGL'', JBool False), (''webRTC'', JBool False)])) bare_browser)"
proof -
  have w: "window bare_browser =
      Some (\<lambda>p. if p = ''localStorage'' then Inr (JObj []) else Inr Undefined)"
    by (simp add: bare_browser_def)
  have r: "\<forall>p\<in>set unguarded_reads.
      \<exists>v. (\<lambda>p. if p = ''localStorage'' then Inr (JObj []) else Inr Undefined) p = Inr v"
    by simp
  have n: "navigator bare_browser = Some (\<lambda>p. False)"
    by (simp add: bare_browser_def)
  have d: "webGL_probe bare_browser = False"
    by (simp add: webGL_probe_def webGL_try_def bare_browser_def)
  from checkBrowserCompatibility_six_booleans [OF w r n, of "[]"]
  show ?thesis
    by (simp add: checkBrowserCompatibility_tool_def checkBrowserCompatibility_execute_def
        window_get_def in_navigator_def w n d webRTC_probe_def Let_def)
qed

text \<open>
  C8 as stated fails: in a host with no \<open>window\<close> (a server-side run) the first
  read throws a ReferenceError, and in a browser whose \<open>localStorage\<close> getter throws
  (storage blocked) that error leaves the probe.
\<close>

theorem checkBrowserCompatibility_can_throw:
  "execute checkBrowserCompatibility_tool [] world0 =
     (Inl (JError ''ReferenceError'' ''window is not defined''), world0) \<and>
   execute checkBrowserCompatibility_tool [] browser_blocking_storage =
     (Inl (JError ''SecurityError'' ''The operation is insecure.''), browser_blocking_storage)"
  by (simp add: checkBrowserCompatibility_tool_def checkBrowserCompatibility_execute_def
      window_get_def world0_def browser_blocking_storage_def reference_error_def)

text \<open>
  C9. When \<open>NODE_ENV\<close> is not \<open>development\<close>, \<open>debugState\<close> returns its
  argument and \<open>measurePerformance\<close> returns what the direct call \<open>fn()\<close> does;
  registry and console are untouched, whatever the registry holds.
\<close>

theorem useBrowserTools_passthrough_outside_development:
  "node_env w \<noteq> Some ''development'' \<Longrightarrow>
   useBrowserTools_debugState state label (browserTools, w) = (Inr state, browserTools, w) \<and>
   useBrowserTools_measurePerformance fn label (browserTools, w) =
     (case fn [] w of
        (Inl e, w') \<Rightarrow> (Inl e, browserTools, w')
      | (Inr v, w') \<Rightarrow> (Inr (Val v), browserTools, w'))"
  by (simp add: useBrowserTools_debugState_def useBrowserTools_measurePerformance_def
      development_def call0_def)

theorem useBrowserTools_passthrough_outside_development_witness:
  "node_env world0 \<noteq> Some ''development'' \<and>
   useBrowserTools_debugState (Val (JStr ''s'')) (Some ''label'') (\<lparr>tools = []\<rparr>, world0) =
     (Inr (Val (JStr ''s'')), \<lparr>tools = []\<rparr>, world0) \<and>
   useBrowserTools_measurePerformance returns_42 (Some ''label'') (\<lparr>tools = []\<rparr>, world0) =
     (Inr (Val (JNum (Finite 42))), \<lparr>tools = []\<rparr>, world0)"
proof -
  have prod: "node_env world0 \<noteq> Some ''development''"
    by (simp add: world0_def)
  show ?thesis
    using useBrowserTools_passthrough_outside_development
      [OF prod, of "Val (JStr ''s'')" "Some ''label''" "\<lparr>tools = []\<rparr>" returns_42] prod
    by (simp add: returns_42_def)
qed

section \<open>Properties of the Express integration\<close>

lemma new_BrowserToolsExpress_no_credentials:
  "supabaseUrl config = None \<or> supabaseKey config = None \<Longrightarrow>
   supabaseClient (new_BrowserToolsExpress createClient config) = None"
  by (auto simp: new_BrowserToolsExpress_def split: option.splits)

lemma new_BrowserToolsExpress_default:
  "new_BrowserToolsExpress createClient
     \<lparr>supabaseUrl = None, supabaseKey = None, cfg_tableName = None, cfg_enableLogging = None\<rparr>
   = no_store_logging"
  by (simp add: new_BrowserToolsExpress_def no_store_logging_def)

lemma body_fields_JObj:
  "body_fields (JObj kvs) =
     Inr (field (JObj kvs) ''type'', field (JObj kvs) ''data'',
          field (JObj kvs) ''timestamp'', field (JObj kvs) ''userId'')"
  by (simp add: body_fields_def field_def split: option.splits)

lemma field_JObj: "field (JObj kvs) k = (case map_of kvs k of None \<Rightarrow> Undefined | Some v \<Rightarrow> v)"
  by (simp add: field_def split: option.splits)

lemma body_fields_present:
  "req_body \<noteq> Undefined \<Longrightarrow> req_body \<noteq> Null \<Longrightarrow>
   body_fields req_body =
     Inr (field req_body ''type'', field req_body ''data'',
          field req_body ''timestamp'', field req_body ''userId'')"
  by (cases req_body) (simp_all add: body_fields_def field_def split: option.splits)

lemma post_events_rejects:
  "body_fields req_body = Inr (t, d, ts, u) \<Longrightarrow> \<not> truthy t \<or> \<not> truthy d \<Longrightarrow>
   post_events this req_body s =
     (Inr \<lparr>status = 400, body = JObj [(''error'', JStr required_msg)]\<rparr>, s)"
  by (auto simp: post_events_def)

lemma post_events_not_persisted:
  "body_fields req_body = Inr (t, d, ts, u) \<Longrightarrow> truthy t \<Longrightarrow> truthy d \<Longrightarrow>
   supabaseClient this = None \<Longrightarrow>
   enableLogging this \<longrightarrow>
     to_string_throws t = None \<and> console_format s (received_pattern t) (Value d) = None \<Longrightarrow>
   post_events this req_body s =
     (Inr \<lparr>status = 200,
           body = JObj [(''success'', JBool True), (''persisted'', JBool False)]\<rparr>,
      if enableLogging this
      then srv_log (Console_log [Text (received_pattern t), Value d]) s
      else s)"
  by (simp add: post_events_def)

text \<open>
  Without a body (\<open>req.body\<close> undefined, as when no body parser has run) the
  destructuring throws; the answer is 500 and the store is not touched.
\<close>

lemma post_events_no_body:
  "req_body = Undefined \<or> req_body = Null \<Longrightarrow>
   \<exists>m. post_events this req_body s =
     (Inr \<lparr>status = 500, body = JObj [(''error'', JStr m)]\<rparr>,
      srv_log (Console_error [Text [Lit post_error_msg], Value (JError ''TypeError'' m)]) s)"
  by (auto simp: post_events_def body_fields_def respond_500_def cannot_destructure_def Let_def)

text \<open>
  C4 (amended). A POST /events whose body can be destructured (\<open>req.body\<close> is
  neither undefined nor null) and has no \<open>type\<close> or no \<open>data\<close> (reading the
  property gives undefined) is answered with 400, and the server state, the store
  included, is as before, whichever client is configured: no insert is made. When
  \<open>req.body\<close> itself is undefined or null, the destructuring throws and the answer
  is 500; the TypeError is logged and again no insert is made.
\<close>

theorem post_events_missing_field:
  "(req_body \<noteq> Undefined \<longrightarrow> req_body \<noteq> Null \<longrightarrow>
    prop_get req_body ''type'' = Inr Undefined \<or> prop_get req_body ''data'' = Inr Undefined \<longrightarrow>
      post_events this req_body s =
        (Inr \<lparr>status = 400, body = JObj [(''error'', JStr required_msg)]\<rparr>, s)) \<and>
   (req_body = Undefined \<or> req_body = Null \<longrightarrow>
      (\<exists>m. post_events this req_body s =
         (Inr \<lparr>status = 500, body = JObj [(''error'', JStr m)]\<rparr>,
          srv_log (Console_error [Text [Lit post_error_msg], Value (JError ''TypeError'' m)])
            s)))"
proof (intro conjI impI)
  assume present: "req_body \<noteq> Undefined" "req_body \<noteq> Null"
    and lacks: "prop_get req_body ''type'' = Inr Undefined \<or>
      prop_get req_body ''data'' = Inr Undefined"
  from lacks have "\<not> truthy (field req_body ''type'') \<or> \<not> truthy (field req_body ''data'')"
    by (auto simp: field_def)
  then show "post_events this req_body s =
      (Inr \<lparr>status = 400, body = JObj [(''error'', JStr required_msg)]\<rparr>, s)"
    by (rule post_events_rejects [OF body_fields_present [OF present]])
next
  assume "req_body = Undefined \<or> req_body = Null"
  then show "\<exists>m. post_events this req_body s =
      (Inr \<lparr>status = 500, body = JObj [(''error'', JStr m)]\<rparr>,
       srv_log (Console_error [Text [Lit post_error_msg], Value (JError ''TypeError'' m)]) s)"
    by (rule post_events_no_body)
qed

theorem post_events_missing_field_witness:
  "post_events with_store (JObj [(''type'', JStr ''click'')]) server0 =
     (Inr \<lparr>status = 400, body = JObj [(''error'', JStr required_msg)]\<rparr>, server0) \<and>
   (\<exists>m. post_events with_store Null server0 =
      (Inr \<lparr>status = 500, body = JObj [(''error'', JStr m)]\<rparr>,
       srv_log (Console_error [Text [Lit post_error_msg], Value (JError ''TypeError'' m)])
         server0))"
proof -
  note object = post_events_missing_field [of "JObj [(''type'', JStr ''click'')]" with_store server0]
  note nobody = post_events_missing_field [of Null with_store server0]
  have 1: "post_events with_store (JObj [(''type'', JStr ''click'')]) server0 =
      (Inr \<lparr>status = 400, body = JObj [(''error'', JStr required_msg)]\<rparr>, server0)"
    using conjunct1 [OF object] by simp
  have 2: "\<exists>m. post_events with_store Null server0 =
      (Inr \<lparr>status = 500, body = JObj [(''error'', JStr m)]\<rparr>,
       srv_log (Console_error [Text [Lit post_error_msg], Value (JError ''TypeError'' m)])
         server0)"
    using conjunct2 [OF nobody] by simp
  show ?thesis
    using 1 2 by (rule conjI)
qed

text \<open>
  C4 as stated fails: a request without a parsed body (\<open>req.body\<close> undefined) lacks
  both fields, and it is answered with 500, not 400.
\<close>

theorem post_events_without_body_is_500:
  "fst (post_events with_store Undefined server0) =
     Inr \<lparr>status = 500,
          body = JObj [(''error'',
                   JStr (''Cannot destructure property '' @ [sq] @ ''type'' @ [sq] @ '' of ''
                         @ [sq] @ ''req.body'' @ [sq] @ '' as it is undefined.''))]\<rparr>"
  by (simp add: post_events_def body_fields_def respond_500_def cannot_destructure_def Let_def)

text \<open>
  C10. A body whose \<open>type\<close> is the empty string, or whose \<open>data\<close> is 0, false,
  the empty string or null, is answered with 400 and no insert: the check is on
  truthiness.
\<close>

theorem post_events_falsy_field:
  "map_of kvs ''type'' = Some (JStr []) \<or>
   map_of kvs ''data'' \<in> {Some (JNum (Finite 0)), Some (JBool False), Some (JStr []), Some Null} \<Longrightarrow>
   post_events this (JObj kvs) s =
     (Inr \<lparr>status = 400, body = JObj [(''error'', JStr required_msg)]\<rparr>, s)"
proof -
  assume falsy: "map_of kvs ''type'' = Some (JStr []) \<or>
    map_of kvs ''data'' \<in> {Some (JNum (Finite 0)), Some (JBool False), Some (JStr []), Some Null}"
  then have "\<not> truthy (field (JObj kvs) ''type'') \<or> \<not> truthy (field (JObj kvs) ''data'')"
    by (auto simp: field_JObj)
  then show ?thesis
    by (rule post_events_rejects [OF body_fields_JObj])
qed

theorem post_events_falsy_field_witness:
  "map_of [(''type'', JStr ''click''), (''data'', JNum (Finite 0))] ''data''
     = Some (JNum (Finite 0)) \<and>
   post_events with_store (JObj [(''type'', JStr ''click''), (''data'', JNum (Finite 0))]) server0 =
     (Inr \<lparr>status = 400, body = JObj [(''error'', JStr required_msg)]\<rparr>, server0) \<and>
   post_events with_store (JObj [(''type'', JStr []), (''data'', JObj [])]) server0 =
     (Inr \<lparr>status = 400, body = JObj [(''error'', JStr required_msg)]\<rparr>, server0)"
proof -
  have d0: "map_of [(''type'', JStr ''click''), (''data'', JNum (Finite 0))] ''type'' = Some (JStr []) \<or>
      map_of [(''type'', JStr ''click''), (''data'', JNum (Finite 0))] ''data''
        \<in> {Some (JNum (Finite 0)), Some (JBool False), Some (JStr []), Some Null}"
    by simp
  have t0: "map_of [(''type'', JStr []), (''data'', JObj [])] ''type'' = Some (JStr []) \<or>
      map_of [(''type'', JStr []), (''data'', JObj [])] ''data''
        \<in> {Some (JNum (Finite 0)), Some (JBool False), Some (JStr []), Some Null}"
    by simp
  show ?thesis
    using post_events_falsy_field [OF d0, of with_store server0]
      post_events_falsy_field [OF t0, of with_store server0]
    by simp
qed

text \<open>
  C5 as stated fails, with \<open>type\<close> and \<open>data\<close> both present and no store
  configured. When \<open>data\<close> is 0 the answer is 400. When \<open>type\<close> is the object
  \<open>{"toString": 1}\<close> and logging is on (the default), the template literal of the log
  line throws and the answer is 500. And when \<open>type\<close> is the string \<open>%d\<close> and
  \<open>data\<close> is \<open>{"toString": 1}\<close>, the console converts \<open>data\<close> to a number
  for the directive, which throws, and the answer is 500.
\<close>

theorem post_events_present_fields_not_200:
  "post_events no_store (JObj [(''type'', JStr ''click''), (''data'', JNum (Finite 0))]) server0 =
     (Inr \<lparr>status = 400, body = JObj [(''error'', JStr required_msg)]\<rparr>, server0) \<and>
   fst (post_events no_store_logging odd_type_event server0) =
     Inr \<lparr>status = 500,
          body = JObj [(''error'', JStr ''Cannot convert object to primitive value'')]\<rparr> \<and>
   fst (post_events no_store_logging directive_event server0) =
     Inr \<lparr>status = 500,
          body = JObj [(''error'', JStr ''Cannot convert object to primitive value'')]\<rparr>"
  by (simp add: post_events_def body_fields_def no_store_def no_store_logging_def
      odd_type_event_def directive_event_def respond_500_def cannot_convert_def Let_def
      server0_def node_console_def received_pattern_def)

text \<open>
  C5 (amended). With no store configured, a body whose \<open>type\<close> and \<open>data\<close> are
  present and truthy is answered with 200 and \<open>{success: true, persisted: false}\<close>,
  provided that logging is off, or the log line can be written: \<open>type\<close> converts to
  a string and the console does not throw on the message and \<open>data\<close>. The only
  effect is the log line, when logging is on.
\<close>

theorem post_events_without_store:
  "supabaseClient this = None \<Longrightarrow>
   map_of kvs ''type'' = Some t \<Longrightarrow> truthy t \<Longrightarrow>
   map_of kvs ''data'' = Some d \<Longrightarrow> truthy d \<Longrightarrow>
   enableLogging this \<longrightarrow>
     to_string_throws t = None \<and> console_format s (received_pattern t) (Value d) = None \<Longrightarrow>
   post_events this (JObj kvs) s =
     (Inr \<lparr>status = 200,
           body = JObj [(''success'', JBool True), (''persisted'', JBool False)]\<rparr>,
      if enableLogging this
      then srv_log (Console_log [Text (received_pattern t), Value d]) s
      else s)"
proof -
  assume none: "supabaseClient this = None"
    and t: "map_of kvs ''type'' = Some t" "truthy t"
    and d: "map_of kvs ''data'' = Some d" "truthy d"
    and written: "enableLogging this \<longrightarrow>
      to_string_throws t = None \<and> console_format s (received_pattern t) (Value d) = None"
  have ft: "field (JObj kvs) ''type'' = t" and fd: "field (JObj kvs) ''data'' = d"
    using t d by (simp_all add: field_JObj)
  have fields: "body_fields (JObj kvs) =
      Inr (t, d, field (JObj kvs) ''timestamp'', field (JObj kvs) ''userId'')"
    using body_fields_JObj [of kvs] by (simp only: ft fd)
  show ?thesis
    using fields t(2) d(2) none written by (rule post_events_not_persisted)
qed

theorem post_events_without_store_witness:
  "post_events no_store_logging click_event server0 =
     (Inr \<lparr>status = 200,
           body = JObj [(''success'', JBool True), (''persisted'', JBool False)]\<rparr>,
      srv_log (Console_log
         [Text (received_pattern (JStr ''click'')), Value (JObj [(''x'', JNum (Finite 1))])])
        server0)"
proof -
  have none: "supabaseClient no_store_logging = None"
    by (simp add: no_store_logging_def)
  have t: "map_of [(''type'', JStr ''click''), (''data'', JObj [(''x'', JNum (Finite 1))])] ''type''
      = Some (JStr ''click'')"
    by simp
  have d: "map_of [(''type'', JStr ''click''), (''data'', JObj [(''x'', JNum (Finite 1))])] ''data''
      = Some (JObj [(''x'', JNum (Finite 1))])"
    by simp
  have c: "enableLogging no_store_logging \<longrightarrow>
      to_string_throws (JStr ''click'') = None \<and>
      console_format server0 (received_pattern (JStr ''click''))
        (Value (JObj [(''x'', JNum (Finite 1))])) = None"
    by (simp add: server0_def node_console_def received_pattern_def)
  show ?thesis
    using post_events_without_store [OF none t _ d _ c]
    by (simp add: click_event_def no_store_logging_def)
qed




subsection \<open>The date arithmetic\<close>

lemma round_half_even_of_int: "round_half_even (of_int k) = k"
  by (simp add: round_half_even_def)

lemma floor_log2_of_int:
  assumes "0 < k" "k < 2 ^ 53"
  shows "floor_log2 (of_int k) \<le> 52"
proof -
  have "bitlen k \<le> 53"
    using assms by (simp add: bitlen_le_iff_power)
  moreover have "(1::rat) \<le> of_int k"
    using assms by simp
  ultimately show ?thesis
    by (simp add: floor_log2_def)
qed

lemma scaled_int:
  assumes "e \<le> 0"
  shows "(of_int k :: rat) / 2 powi e = of_int (k * 2 ^ nat (- e))"
  using assms by (simp add: power_int_def field_simps)

text \<open>An integer below \<open>2^53\<close> in magnitude is a double.\<close>

lemma to_double_of_int:
  assumes "\<bar>k\<bar> < 2 ^ 53"
  shows "to_double (of_int k) = Finite (of_int k)"
proof (cases "k = 0")
  case True
  then show ?thesis by (simp add: to_double_def)
next
  case False
  define e where "e = max (floor_log2 \<bar>of_int k\<bar> - 52) (- 1074)"
  have magnitude: "\<bar>of_int k :: rat\<bar> = of_int \<bar>k\<bar>"
    by simp
  have "floor_log2 (of_int \<bar>k\<bar>) \<le> 52"
    using False assms by (intro floor_log2_of_int) auto
  then have e: "e \<le> 0"
    by (simp add: e_def magnitude del: of_int_abs)
  have unscale: "(of_int (k * 2 ^ nat (- e)) :: rat) * 2 powi e = of_int k"
    using e by (simp add: power_int_def field_simps)
  have y: "of_int (round_half_even (of_int k / 2 powi e)) * 2 powi e = (of_int k :: rat)"
    by (simp only: scaled_int [OF e] round_half_even_of_int unscale)
  have small: "\<not> (2 ^ 1024 \<le> \<bar>of_int k :: rat\<bar>)"
  proof -
    have "\<bar>k\<bar> < 2 ^ 1024"
      using assms by (rule less_trans) simp
    then have "(of_int \<bar>k\<bar> :: rat) < of_int (2 ^ 1024)"
      by (simp only: of_int_less_iff)
    then show ?thesis
      by simp
  qed
  show ?thesis
    using False small unfolding to_double_def Let_def e_def [symmetric] y
    by simp
qed

text \<open>The model rounds where the doubles do: \<open>14 - 2^(-60)\<close> is 14.\<close>

lemma to_double_rounds: "to_double (14 - 1 / 2 ^ 60) = Finite 14"
  by code_simp

lemma to_integer_of_int: "to_integer (of_int k) = k"
  by (simp add: to_integer_def)

lemma day_decomposition: "(Day t - d) * msPerDay + TimeWithinDay t = t - d * msPerDay"
proof -
  have "Day t * msPerDay + TimeWithinDay t = t"
    by (simp add: Day_def TimeWithinDay_def)
  then show ?thesis
    by (simp add: algebra_simps)
qed

lemma setDate_getDate_minus:
  assumes "\<bar>getDate s tv - d\<bar> < 2 ^ 53"
  shows "setDate s tv (int_minus (getDate s tv) (Finite (of_int d))) =
     TimeClip (utc_time s (local_time s tv - d * msPerDay))"
proof -
  have "of_int (getDate s tv) - (of_int d :: rat) = of_int (getDate s tv - d)"
    by simp
  then have diff: "int_minus (getDate s tv) (Finite (of_int d)) = Finite (of_int (getDate s tv - d))"
    using to_double_of_int [OF assms] by (simp only: int_minus.simps)
  have day: "month_start s (local_time s tv) + (getDate s tv - d) - 1
      = Day (local_time s tv) - d"
    by (simp add: getDate_def)
  have "setDate s tv (int_minus (getDate s tv) (Finite (of_int d))) =
      TimeClip (utc_time s ((month_start s (local_time s tv) + (getDate s tv - d) - 1)
        * msPerDay + TimeWithinDay (local_time s tv)))"
    by (simp only: diff setDate_def jsnum.case Let_def to_integer_of_int)
  then show ?thesis
    by (simp only: day day_decomposition)
qed

lemma setDate_not_finite:
  "n = NaN \<or> n = PosInfinity \<or> n = NegInfinity \<Longrightarrow> setDate s tv (int_minus a n) = None"
  by (auto simp: setDate_def)

subsection \<open>The metrics query\<close>

lemma map_throwing_all:
  "\<forall>x\<in>set xs. f x = Inr (g x) \<Longrightarrow> map_throwing f xs = Inr (map g xs)"
  by (induction xs) auto

lemma metric_of_projected:
  "row \<noteq> Undefined \<Longrightarrow> row \<noteq> Null \<Longrightarrow> has_payload row \<Longrightarrow> metric_of row = Inr (projected row)"
proof -
  assume r: "row \<noteq> Undefined" "row \<noteq> Null" and p: "has_payload row"
  have rd: "\<And>k. prop_get row k = Inr (field row k)"
    using r by (cases row) (auto simp: field_def split: option.splits)
  have dd: "\<And>k. prop_get (field row ''data'') k = Inr (field (field row ''data'') k)"
    using p by (cases "field row ''data''") (auto simp: has_payload_def field_def split: option.splits)
  show ?thesis
    by (simp add: metric_of_def rd dd projected_def)
qed

lemma is_performance_since_not_nullish:
  "is_performance_since reads c row \<Longrightarrow> row \<noteq> Undefined \<and> row \<noteq> Null"
  by (auto simp: is_performance_since_def)

lemma row_selected_performance_query:
  "row_selected reads (performance_query (JIso c)) = is_performance_since reads c"
  by (rule ext) (auto simp: row_selected_def performance_query_def field_eq_def field_gte_def
      is_performance_since_def split: option.splits)

lemma ordered_performance_query:
  "ordered reads (order_by (performance_query start)) rows = newest_first reads rows"
  by (simp add: ordered_def performance_query_def newest_first_def order_key_def event_time_def)

lemma store_select_performance:
  "store_select reads collection (performance_query (JIso c)) st =
     (Inr \<lparr>res_data = JArr (newest_first reads
                              (filter (is_performance_since reads c) (st collection))),
           res_error = Null\<rparr>, st)"
  by (simp add: store_select_def ordered_performance_query row_selected_performance_query)

lemma newest_first_set: "set (newest_first reads rows) = set rows"
  by (simp add: newest_first_def)

lemma newest_first_sorted:
  "sorted_wrt (\<lambda>a b. event_time reads b \<le> event_time reads a) (newest_first reads rows)"
proof -
  have "sorted (map (\<lambda>row. - event_time reads row) (newest_first reads rows))"
    by (simp add: newest_first_def)
  then show ?thesis
    by (simp add: sorted_map sorted_wrt_iff_nth_less)
qed

lemma get_metrics_performance_unconfigured:
  "supabaseClient this = None \<Longrightarrow>
   get_metrics_performance this days s =
     (Inr \<lparr>status = 503, body = JObj [(''error'', JStr not_configured_msg)]\<rparr>, s)"
  by (simp add: get_metrics_performance_def)

text \<open>A \<open>days\<close> that is not a finite number: no query is made, the answer is 500.\<close>

lemma get_metrics_performance_not_finite:
  "supabaseClient this = Some client \<Longrightarrow>
   days = Some NaN \<or> days = Some PosInfinity \<or> days = Some NegInfinity \<Longrightarrow>
   get_metrics_performance this days s =
     (Inr \<lparr>status = 500, body = JObj [(''error'', JStr ''Invalid time value'')]\<rparr>,
      srv_log (Console_error [Text [Lit metrics_error_msg],
                 Value (JError ''RangeError'' ''Invalid time value'')]) s)"
  by (auto simp: get_metrics_performance_def days_number_def setDate_def toISOString_def
      respond_500_def Let_def)

text \<open>Whatever client is configured: the query that is made, and what is returned.\<close>

lemma get_metrics_performance_from:
  assumes "supabaseClient this = Some client"
    and "setDate s (now s) (int_minus (getDate s (now s)) (days_number days)) = Some c"
    and "from_select client (tableName this) (performance_query (JIso c)) (db s)
         = (Inr \<lparr>res_data = JArr rows, res_error = err\<rparr>, db')"
    and "\<not> truthy err"
    and "\<forall>row\<in>set rows. row \<noteq> Undefined \<and> row \<noteq> Null \<and> has_payload row"
  shows "get_metrics_performance this days s =
           (Inr \<lparr>status = 200, body = JArr (map projected rows)\<rparr>, s\<lparr>db := db'\<rparr>)"
proof -
  have proj: "map_throwing metric_of rows = Inr (map projected rows)"
    using assms(5) by (intro map_throwing_all) (simp add: metric_of_projected)
  show ?thesis
    by (simp add: get_metrics_performance_def assms(1) Let_def assms(2) toISOString_def
        assms(3) assms(4) proj)
qed

lemma get_metrics_performance_store:
  assumes "supabaseClient this = Some (store_client reads)"
    and "setDate s (now s) (int_minus (getDate s (now s)) (days_number days)) = Some c"
    and "\<forall>row\<in>set (db s (tableName this)). is_performance_since reads c row \<longrightarrow> has_payload row"
  shows "get_metrics_performance this days s =
           (Inr \<lparr>status = 200,
                 body = JArr (map projected
                          (newest_first reads
                             (filter (is_performance_since reads c) (db s (tableName this)))))\<rparr>,
            s)"
proof -
  let ?rows = "newest_first reads (filter (is_performance_since reads c) (db s (tableName this)))"
  have sel: "from_select (store_client reads) (tableName this) (performance_query (JIso c)) (db s)
      = (Inr \<lparr>res_data = JArr ?rows, res_error = Null\<rparr>, db s)"
    by (simp add: store_client_def store_select_performance)
  have rows: "\<forall>row\<in>set ?rows. row \<noteq> Undefined \<and> row \<noteq> Null \<and> has_payload row"
    using assms(3) by (auto simp: newest_first_set dest: is_performance_since_not_nullish)
  have "get_metrics_performance this days s =
      (Inr \<lparr>status = 200, body = JArr (map projected ?rows)\<rparr>, s\<lparr>db := db s\<rparr>)"
    using assms(1) assms(2) sel _ rows by (rule get_metrics_performance_from) simp
  then show ?thesis
    by simp
qed

lemma valid_cutoff_small_days:
  assumes "calendar_ok s d" and "\<bar>cutoff s d\<bar> \<le> 8640000000000000"
  shows "\<bar>getDate s (now s) - d\<bar> < 2 ^ 53"
proof -
  define t where "t = local_time s (now s)"
  define u where "u = utc_time s (t - d * 86400000)"
  have clock: "\<bar>now s\<bar> \<le> 8640000000000000"
    and lo: "1 \<le> getDate s (now s)" and hi: "getDate s (now s) \<le> 31"
    and local: "\<bar>t - now s\<bar> \<le> 86400000"
    and utc: "\<bar>u - (t - d * 86400000)\<bar> \<le> 86400000"
    using assms(1) by (simp_all add: calendar_ok_def Let_def msPerDay_def t_def u_def)
  have valid: "\<bar>u\<bar> \<le> 8640000000000000"
    using assms(2) by (simp add: cutoff_def msPerDay_def t_def u_def)
  have "\<bar>d * 86400000\<bar> \<le> 17280000172800000"
    using clock local utc valid by linarith
  then have "\<bar>d\<bar> \<le> 200000002"
    by linarith
  then have "\<bar>getDate s (now s) - d\<bar> \<le> 200000033"
    using lo hi by linarith
  then show ?thesis
    by simp
qed

text \<open>
  C6 (amended). Without a store the answer is 503. With the store of the
  specification, on the clock and calendar of an ECMAScript runtime, when \<open>days\<close>
  (default 7) is an integer \<open>d\<close> and the cutoff, \<open>d\<close> days before now on the local
  clock, is a valid time value, the answer is 200 with exactly the records of type
  \<open>performance\<close> whose timestamp is at or after the cutoff, newest first, each
  projected to \<open>{id, timestamp, operation, duration, userId}\<close>, provided each of these
  records has a payload (a \<open>data\<close> that is neither null nor undefined).
\<close>

theorem get_metrics_performance_result:
  "(supabaseClient this = None \<longrightarrow>
      get_metrics_performance this days s =
        (Inr \<lparr>status = 503, body = JObj [(''error'', JStr not_configured_msg)]\<rparr>, s)) \<and>
   (supabaseClient this = Some (store_client reads) \<longrightarrow>
    calendar_ok s d \<longrightarrow>
    days_number days = Finite (of_int d) \<longrightarrow>
    \<bar>cutoff s d\<bar> \<le> 8640000000000000 \<longrightarrow>
    (\<forall>row\<in>set (db s (tableName this)).
       is_performance_since reads (cutoff s d) row \<longrightarrow> has_payload row) \<longrightarrow>
      get_metrics_performance this days s =
        (Inr \<lparr>status = 200,
              body = JArr (map projected
                       (newest_first reads
                          (filter (is_performance_since reads (cutoff s d))
                             (db s (tableName this)))))\<rparr>, s))"
proof (intro conjI impI)
  assume "supabaseClient this = None"
  then show "get_metrics_performance this days s =
      (Inr \<lparr>status = 503, body = JObj [(''error'', JStr not_configured_msg)]\<rparr>, s)"
    by (rule get_metrics_performance_unconfigured)
next
  assume client: "supabaseClient this = Some (store_client reads)"
    and runtime: "calendar_ok s d"
    and days: "days_number days = Finite (of_int d)"
    and valid: "\<bar>cutoff s d\<bar> \<le> 8640000000000000"
    and payload: "\<forall>row\<in>set (db s (tableName this)).
       is_performance_since reads (cutoff s d) row \<longrightarrow> has_payload row"
  have exact: "\<bar>getDate s (now s) - d\<bar> < 2 ^ 53"
    using runtime valid by (rule valid_cutoff_small_days)
  have start: "setDate s (now s) (int_minus (getDate s (now s)) (days_number days))
      = Some (cutoff s d)"
    unfolding days setDate_getDate_minus [OF exact]
    using valid by (simp add: TimeClip_def cutoff_def)
  show "get_metrics_performance this days s =
      (Inr \<lparr>status = 200,
            body = JArr (map projected
                     (newest_first reads
                        (filter (is_performance_since reads (cutoff s d))
                           (db s (tableName this)))))\<rparr>, s)"
    using client start payload by (rule get_metrics_performance_store)
qed

lemma server1_day: "getDate server1 (now server1) = 14"
  by (simp add: getDate_def server1_def Day_def msPerDay_def)

lemma server1_since_7_days:
  "newest_first read_iso
     (filter (is_performance_since read_iso 1699395200000) (db server1 ''browser_tools_events''))
     = [performance_row 5 (JStr ''2023-11-14T00:00:00Z''),
        performance_row 3 (JIso 1699913600000), performance_row 1 (JIso 1699827200000)]"
  by (simp add: server1_def performance_row_def is_performance_since_def field_def
      newest_first_def event_time_def read_iso_def)

theorem get_metrics_performance_result_witness:
  "get_metrics_performance with_store None server1 =
     (Inr \<lparr>status = 200,
           body = JArr [projected (performance_row 5 (JStr ''2023-11-14T00:00:00Z'')),
                        projected (performance_row 3 (JIso 1699913600000)),
                        projected (performance_row 1 (JIso 1699827200000))]\<rparr>, server1) \<and>
   get_metrics_performance no_store None server1 =
     (Inr \<lparr>status = 503, body = JObj [(''error'', JStr not_configured_msg)]\<rparr>, server1)"
proof -
  note inst = get_metrics_performance_result [of with_store None server1 read_iso 7]
  note inst0 = get_metrics_performance_result [of no_store None server1 read_iso 7]
  have client: "supabaseClient with_store = Some (store_client read_iso)"
    by (simp add: with_store_def)
  have days: "days_number None = Finite (of_int 7)"
    by (simp add: days_number_def)
  have runtime: "calendar_ok server1 7"
    unfolding calendar_ok_def Let_def server1_day
    by (simp add: server1_def msPerDay_def)
  have c: "cutoff server1 7 = 1699395200000"
    by (simp add: cutoff_def server1_def msPerDay_def)
  have valid: "\<bar>cutoff server1 7\<bar> \<le> 8640000000000000"
    by (simp add: c)
  have tn: "tableName with_store = ''browser_tools_events''"
    by (simp add: with_store_def)
  have payload: "\<forall>row\<in>set (db server1 (tableName with_store)).
      is_performance_since read_iso (cutoff server1 7) row \<longrightarrow> has_payload row"
    by (simp add: tn server1_def performance_row_def has_payload_def field_def
        is_performance_since_def)
  have 1: "get_metrics_performance with_store None server1 =
     (Inr \<lparr>status = 200,
           body = JArr (map projected
                    (newest_first read_iso
                       (filter (is_performance_since read_iso (cutoff server1 7))
                          (db server1 (tableName with_store)))))\<rparr>, server1)"
    using conjunct2 [OF inst] client runtime days valid payload by (elim impE) assumption+
  have none: "supabaseClient no_store = None"
    by (simp add: no_store_def)
  have 2: "get_metrics_performance no_store None server1 =
     (Inr \<lparr>status = 503, body = JObj [(''error'', JStr not_configured_msg)]\<rparr>, server1)"
    using conjunct1 [OF inst0] none by (elim impE) assumption+
  show ?thesis
    using 1 2 by (simp add: c tn server1_since_7_days)
qed

lemma server1_since_2_days:
  "newest_first read_iso
     (filter (is_performance_since read_iso 1699827200000) (db server1 ''browser_tools_events''))
     = [performance_row 5 (JStr ''2023-11-14T00:00:00Z''),
        performance_row 3 (JIso 1699913600000), performance_row 1 (JIso 1699827200000)]"
  by (simp add: server1_def performance_row_def is_performance_since_def field_def
      newest_first_def event_time_def read_iso_def)

lemma to_double_twelve_and_a_half: "to_double (25 / 2) = Finite (25 / 2)"
  by code_simp

lemma to_integer_twelve_and_a_half: "to_integer (25 / 2) = 12"
  by code_simp

lemma to_double_seven: "to_double 7 = Finite 7"
  using to_double_of_int [of 7] by simp

text \<open>
  C6 as stated fails, with a store configured. A \<open>days\<close> that is not a number
  (\<open>?days=abc\<close>, for which \<open>Number\<close> gives NaN) makes the start date invalid,
  \<open>toISOString\<close> throws, and the answer is 500 with no query made; so does
  \<open>?days=200000000\<close>, which puts the start date before the first valid one. For
  \<open>?days=1.5\<close> on the 14th, \<open>setDate(12.5)\<close> truncates to the 12th: the cutoff is
  two days back, and the record of two days ago is returned although it is older than
  1.5 days. And a performance record without a payload, as \<open>logEvent\<close> stores for
  \<open>data\<close> null, makes the projection throw, and the answer is 500.
\<close>

theorem get_metrics_performance_not_as_claimed:
  "get_metrics_performance with_store (Some NaN) server0 =
     (Inr \<lparr>status = 500, body = JObj [(''error'', JStr ''Invalid time value'')]\<rparr>,
      srv_log (Console_error [Text [Lit metrics_error_msg],
                 Value (JError ''RangeError'' ''Invalid time value'')]) server0) \<and>
   fst (get_metrics_performance with_store (Some (Finite 200000000)) server0) =
     Inr \<lparr>status = 500, body = JObj [(''error'', JStr ''Invalid time value'')]\<rparr> \<and>
   get_metrics_performance with_store (Some (Finite (3 / 2))) server1 =
     (Inr \<lparr>status = 200,
           body = JArr [projected (performance_row 5 (JStr ''2023-11-14T00:00:00Z'')),
                        projected (performance_row 3 (JIso 1699913600000)),
                        projected (performance_row 1 (JIso 1699827200000))]\<rparr>, server1) \<and>
   event_time read_iso (performance_row 1 (JIso 1699827200000)) < now server1 - 129600000 \<and>
   fst (logEvent with_store ''performance'' (Plain Null) None server0) = Inr True \<and>
   fst (get_metrics_performance with_store None
          (snd (logEvent with_store ''performance'' (Plain Null) None server0))) =
     Inr \<lparr>status = 500,
          body = JObj [(''error'',
                   JStr (''Cannot read properties of null (reading '' @ [sq] @ ''operation''
                         @ [sq] @ '')''))]\<rparr>"
proof -
  have client: "supabaseClient with_store = Some (store_client read_iso)"
    by (simp add: with_store_def)
  have tn: "tableName with_store = ''browser_tools_events''"
    by (simp add: with_store_def)
  have nan: "get_metrics_performance with_store (Some NaN) server0 =
     (Inr \<lparr>status = 500, body = JObj [(''error'', JStr ''Invalid time value'')]\<rparr>,
      srv_log (Console_error [Text [Lit metrics_error_msg],
                 Value (JError ''RangeError'' ''Invalid time value'')]) server0)"
    using client by (rule get_metrics_performance_not_finite) simp
  have day0: "getDate server0 (now server0) = 14"
    by (simp add: getDate_def server0_def Day_def msPerDay_def)
  have "\<bar>getDate server0 (now server0) - 200000000\<bar> < 2 ^ 53"
    by (simp add: day0)
  from setDate_getDate_minus [OF this]
  have start_far: "setDate server0 (now server0)
      (int_minus (getDate server0 (now server0)) (days_number (Some (Finite 200000000)))) = None"
    by (simp add: days_number_def TimeClip_def server0_def msPerDay_def)
  have far: "fst (get_metrics_performance with_store (Some (Finite 200000000)) server0) =
     Inr \<lparr>status = 500, body = JObj [(''error'', JStr ''Invalid time value'')]\<rparr>"
    unfolding get_metrics_performance_def Let_def start_far
    by (simp add: with_store_def toISOString_def respond_500_def)
  have start15: "setDate server1 (now server1)
      (int_minus (getDate server1 (now server1)) (days_number (Some (Finite (3 / 2)))))
      = Some 1699827200000"
    by (simp add: server1_day days_number_def to_double_twelve_and_a_half setDate_def
        to_integer_twelve_and_a_half TimeClip_def Let_def)
       (simp add: server1_def TimeWithinDay_def msPerDay_def)
  have payload15: "\<forall>row\<in>set (db server1 (tableName with_store)).
      is_performance_since read_iso 1699827200000 row \<longrightarrow> has_payload row"
    by (simp add: tn server1_def performance_row_def has_payload_def field_def
        is_performance_since_def)
  have fraction: "get_metrics_performance with_store (Some (Finite (3 / 2))) server1 =
     (Inr \<lparr>status = 200,
           body = JArr [projected (performance_row 5 (JStr ''2023-11-14T00:00:00Z'')),
                        projected (performance_row 3 (JIso 1699913600000)),
                        projected (performance_row 1 (JIso 1699827200000))]\<rparr>, server1)"
    using get_metrics_performance_store [OF client start15 payload15]
    by (simp add: tn server1_since_2_days)
  have older: "event_time read_iso (performance_row 1 (JIso 1699827200000))
      < now server1 - 129600000"
    by (simp add: event_time_def performance_row_def field_def server1_def)
  let ?s1 = "server0\<lparr>db := (db server0)(''browser_tools_events'' :=
      [JObj [(''type'', JStr ''performance''), (''data'', Null),
             (''timestamp'', JIso 1700000000000), (''user_id'', Null)]])\<rparr>"
  have logged: "logEvent with_store ''performance'' (Plain Null) None server0 = (Inr True, ?s1)"
    by (simp add: logEvent_def with_store_def store_client_def store_insert_def stored_def
        server_event_def server0_def)
  have day: "getDate ?s1 (now ?s1) = 14"
    by (simp add: getDate_def server0_def Day_def msPerDay_def)
  have start7: "setDate ?s1 (now ?s1) (int_minus (getDate ?s1 (now ?s1)) (days_number None))
      = Some 1699395200000"
    unfolding day days_number_def
    by (simp add: to_double_seven setDate_def to_integer_def TimeClip_def Let_def
        server0_def TimeWithinDay_def msPerDay_def)
  have null: "fst (get_metrics_performance with_store None ?s1) =
     Inr \<lparr>status = 500,
          body = JObj [(''error'',
                   JStr (''Cannot read properties of null (reading '' @ [sq] @ ''operation''
                         @ [sq] @ '')''))]\<rparr>"
    unfolding get_metrics_performance_def Let_def start7
    by (simp add: with_store_def toISOString_def store_client_def store_select_def
        performance_query_def row_selected_def field_eq_def field_gte_def field_def ordered_def
        order_key_def metric_of_def cannot_read_def respond_500_def server0_def)
  show ?thesis
    using nan far fraction older logged null by simp
qed

end
